theory Spec2Isabelle
  imports Main "HOL-Library.AList"
begin

section \<open>Python values, exceptions and the outside world\<close>

text \<open>
  The values that flow through \<^verbatim>\<open>handler.py\<close> and \<^verbatim>\<open>eve.py\<close>: what
  \<^verbatim>\<open>json.loads\<close> and \<^verbatim>\<open>Response.json()\<close> produce, the envelopes built by
  \<^verbatim>\<open>output_json\<close> and the error objects built by \<^verbatim>\<open>safe_run\<close>. A dictionary is an
  association list with string keys, read with \<open>map_of\<close>. A float is carried as the text
  \<^verbatim>\<open>str\<close> prints for it: the program only formats floats, it never computes with them.
  A \<open>string\<close> holds the UTF-8 bytes of a Python \<^verbatim>\<open>str\<close>.
\<close>

datatype pyval =
    PNone
  | PBool bool
  | PInt int
  | PFloat string
  | PStr string
  | PList "pyval list"
  | PDict "(string \<times> pyval) list"

text \<open>
  Exceptions are values: the class and the text \<^verbatim>\<open>str(e)\<close> gives. The last three
  classes derive from \<^verbatim>\<open>BaseException\<close> only, so \<^verbatim>\<open>except Exception\<close> does not
  catch them. \<open>OtherError\<close> stands for every other class below \<^verbatim>\<open>Exception\<close>
  (the errors of \<^verbatim>\<open>requests\<close>, \<^verbatim>\<open>ollama\<close>, \<^verbatim>\<open>bs4\<close>, \<^verbatim>\<open>json\<close>), named by the
  string.
\<close>

datatype exc_class =
    KeyError | TypeError | IndexError | AttributeError | RuntimeError | EOFError
  | OtherError string
  | KeyboardInterrupt | SystemExit | GeneratorExit

datatype exn = Exn (exc_class: exc_class) (message: string)

fun is_Exception_class :: "exc_class \<Rightarrow> bool" where
  "is_Exception_class KeyboardInterrupt = False"
| "is_Exception_class SystemExit = False"
| "is_Exception_class GeneratorExit = False"
| "is_Exception_class _ = True"

definition is_Exception :: "exn \<Rightarrow> bool" where
  "is_Exception e = is_Exception_class (exc_class e)"

text \<open>
  The effects of the program are kept in the world: every \<^verbatim>\<open>print\<close> call (its arguments
  and its \<^verbatim>\<open>end\<close>), every value handed to \<^verbatim>\<open>requests.get\<close> as the URL and every
  \<^verbatim>\<open>ollama.chat\<close> call (model and messages), oldest first.
\<close>

datatype printed = Print "pyval list" string

record world =
  stdout :: "printed list"
  http_log :: "pyval list"
  chat_log :: "(pyval \<times> pyval list) list"

definition print :: "pyval list \<Rightarrow> world \<Rightarrow> world" where
  "print args w = w\<lparr>stdout := stdout w @ [Print args [CHR 0x0A]]\<rparr>"

definition print_end :: "pyval list \<Rightarrow> string \<Rightarrow> world \<Rightarrow> world" where
  "print_end args e w = w\<lparr>stdout := stdout w @ [Print args e]\<rparr>"

text \<open>
  What the libraries and the servers answer is not in the repository: it is a parameter of
  every definition below. An answer may depend on what has happened so far (the world).
  \<^item> \<open>getenv\<close>: \<^verbatim>\<open>os.getenv\<close>, \<open>PNone\<close> or a \<open>PStr\<close>;
  \<^item> \<open>fmt\<close>: the text of a value inside an f-string or \<^verbatim>\<open>str.format\<close>;
  \<^item> \<open>lower\<close>: \<^verbatim>\<open>str.lower\<close>;
  \<^item> \<open>format_exc\<close>: the text \<^verbatim>\<open>traceback.format_exc()\<close> returns inside the
    handler of the wrapper around the named function;
  \<^item> \<open>requests_get\<close>: the response to a GET, or the exception it raises;
  \<^item> \<open>yesterday\<close>: \<^verbatim>\<open>(date.today()-timedelta(days=1)).isoformat()\<close>;
  \<^item> \<open>soup_paragraphs\<close>: \<^verbatim>\<open>BeautifulSoup(data,'html.parser').find('div',
    id='mw-content-text')\<close>, \<open>None\<close> when there is no such element, else the texts of
    its \<^verbatim>\<open>p\<close> elements;
  \<^item> \<open>arity_error\<close>: the text of the \<^verbatim>\<open>TypeError\<close> for calling the named
    function with an argument list that does not fit its parameters;
  \<^item> \<open>json_loads\<close>: \<^verbatim>\<open>json.loads\<close>;
  \<^item> \<open>ollama_chat\<close>: the streamed tokens of a chat call, and the exception that ends
    the stream if one does, or the exception the call itself raises.
\<close>

record response =
  status_code :: int
  json :: "exn + pyval"
  content_decoded :: "exn + string"

record env =
  getenv :: "string \<Rightarrow> pyval"
  fmt :: "pyval \<Rightarrow> string"
  lower :: "string \<Rightarrow> string"
  format_exc :: "string \<Rightarrow> exn \<Rightarrow> string"
  requests_get :: "pyval \<Rightarrow> world \<Rightarrow> exn + response"
  yesterday :: "world \<Rightarrow> string"
  soup_paragraphs :: "pyval \<Rightarrow> exn + string list option"
  arity_error :: "string \<Rightarrow> pyval list \<Rightarrow> string"
  json_loads :: "string \<Rightarrow> exn + pyval"
  ollama_chat :: "pyval \<Rightarrow> pyval list \<Rightarrow> world \<Rightarrow> exn + string list \<times> exn option"

text \<open>
  A callable carries its \<^verbatim>\<open>__name__\<close>; calling it with arguments in a world gives a
  value or a raised exception, and the world after the call.
\<close>

type_synonym 'a outcome = "(exn + 'a) \<times> world"

record 'a callable =
  func_name :: string
  call :: "'a \<Rightarrow> world \<Rightarrow> pyval outcome"

section \<open>handler.py\<close>

text \<open>\<^verbatim>\<open>safe_run\<close>: the error object of the handler, and the wrapper.\<close>

definition error_data :: "env \<Rightarrow> string \<Rightarrow> exn \<Rightarrow> pyval" where
  "error_data E fname e = PDict
     [(''success'', PBool False),
      (''error'', PStr (message e)),
      (''function'', PStr fname),
      (''trace'', PStr (format_exc E fname e))]"

definition safe_run :: "env \<Rightarrow> 'a callable \<Rightarrow> 'a callable" where
  "safe_run E func =
     \<lparr>func_name = ''wrapper'',
      call = (\<lambda>args w.
        case call func args w of
          (Inr v, w') \<Rightarrow> (Inr v, w')
        | (Inl e, w') \<Rightarrow>
            if is_Exception e
            then (Inr (error_data E (func_name func) e),
                  print [PStr (''Error in '' @ func_name func @ '': '' @ message e)] w')
            else (Inl e, w'))\<rparr>"

definition output_json :: "pyval \<Rightarrow> pyval \<Rightarrow> pyval" where
  "output_json success result = PDict [(''success'', success), (''data'', result)]"

text \<open>
  An object is its attribute table: what \<^verbatim>\<open>dir\<close>, \<^verbatim>\<open>getattr\<close> and \<^verbatim>\<open>setattr\<close> see.
  A method is stored bound, as \<^verbatim>\<open>getattr(self, name)\<close> returns it; \<^verbatim>\<open>callable\<close> is
  true of a method and false of a value and of a dictionary of functions (\<open>Table\<close>).
\<close>

datatype attr =
    Method "pyval list callable"
  | Data pyval
  | Table "(string \<times> pyval list callable) list"

type_synonym obj = "(string \<times> attr) list"

definition dir :: "obj \<Rightarrow> string list" where
  "dir self = remdups (map fst self)"

definition getattr :: "obj \<Rightarrow> string \<Rightarrow> attr option" where
  "getattr self attr_name = map_of self attr_name"

definition setattr :: "obj \<Rightarrow> string \<Rightarrow> attr \<Rightarrow> obj" where
  "setattr self attr_name v = AList.update attr_name v self"

definition startswith :: "string \<Rightarrow> string \<Rightarrow> bool" where
  "startswith s p = (take (length p) s = p)"

definition wrap_step :: "env \<Rightarrow> obj \<Rightarrow> string \<Rightarrow> obj" where
  "wrap_step E self attr_name =
     (if startswith attr_name ''__'' then self
      else case getattr self attr_name of
             Some (Method f) \<Rightarrow> setattr self attr_name (Method (safe_run E f))
           | _ \<Rightarrow> self)"

definition wrap_modules :: "env \<Rightarrow> obj \<Rightarrow> obj" where
  "wrap_modules E self = foldl (wrap_step E) self (dir self)"

text \<open>\<^verbatim>\<open>ErrorHandler.__init__\<close> only calls \<^verbatim>\<open>_wrap_modules\<close>.\<close>

definition ErrorHandler_init :: "env \<Rightarrow> obj \<Rightarrow> obj" where
  "ErrorHandler_init E self = wrap_modules E self"

section \<open>The Python operations the program uses\<close>

text \<open>
  Sequencing: the first raise ends the evaluation. \<open>and_then\<close> is for expressions
  without effects, \<open>then_do\<close> threads the world.
\<close>

definition and_then :: "exn + 'a \<Rightarrow> ('a \<Rightarrow> exn + 'b) \<Rightarrow> exn + 'b" where
  "and_then m f = (case m of Inl e \<Rightarrow> Inl e | Inr x \<Rightarrow> f x)"

definition then_do :: "'a outcome \<Rightarrow> ('a \<Rightarrow> world \<Rightarrow> 'b outcome) \<Rightarrow> 'b outcome" where
  "then_do m f = (case m of (Inl e, w) \<Rightarrow> (Inl e, w) | (Inr x, w) \<Rightarrow> f x w)"

definition type_name :: "pyval \<Rightarrow> string" where
  "type_name v = (case v of
      PNone \<Rightarrow> ''NoneType'' | PBool _ \<Rightarrow> ''bool'' | PInt _ \<Rightarrow> ''int''
    | PFloat _ \<Rightarrow> ''float'' | PStr _ \<Rightarrow> ''str'' | PList _ \<Rightarrow> ''list''
    | PDict _ \<Rightarrow> ''dict'')"

definition quoted :: "string \<Rightarrow> string" where
  "quoted s = [CHR 0x27] @ s @ [CHR 0x27]"

definition not_subscriptable :: "pyval \<Rightarrow> exn" where
  "not_subscriptable v = Exn TypeError (quoted (type_name v) @ '' object is not subscriptable'')"

definition no_attribute :: "pyval \<Rightarrow> string \<Rightarrow> exn" where
  "no_attribute v a =
     Exn AttributeError (quoted (type_name v) @ '' object has no attribute '' @ quoted a)"

text \<open>
  The code points of a string: a byte and the continuation bytes (\<open>10xxxxxx\<close>) after it.
  \<^verbatim>\<open>len\<close> and slices of a \<^verbatim>\<open>str\<close> count code points.
\<close>

definition is_continuation :: "char \<Rightarrow> bool" where
  "is_continuation c = (128 \<le> (of_char c :: nat) \<and> (of_char c :: nat) < 192)"

function codepoints :: "string \<Rightarrow> string list" where
  "codepoints [] = []"
| "codepoints (c # cs) =
     (c # takeWhile is_continuation cs) # codepoints (dropWhile is_continuation cs)"
  by pat_completeness auto
termination
  by (relation "measure length") (auto simp: less_Suc_eq_le length_dropWhile_le)

definition str_slice_to :: "nat \<Rightarrow> string \<Rightarrow> string" where
  "str_slice_to n s = concat (take n (codepoints s))"

text \<open>\<^verbatim>\<open>v[k]\<close> for a string constant \<open>k\<close>, and \<^verbatim>\<open>v[0]\<close>.\<close>

definition getitem :: "pyval \<Rightarrow> string \<Rightarrow> exn + pyval" where
  "getitem v k = (case v of
      PDict d \<Rightarrow> (case map_of d k of Some x \<Rightarrow> Inr x | None \<Rightarrow> Inl (Exn KeyError (quoted k)))
    | PList _ \<Rightarrow> Inl (Exn TypeError ''list indices must be integers or slices, not str'')
    | PStr _ \<Rightarrow> Inl (Exn TypeError (''string indices must be integers, not '' @ quoted ''str''))
    | _ \<Rightarrow> Inl (not_subscriptable v))"

definition getitem0 :: "pyval \<Rightarrow> exn + pyval" where
  "getitem0 v = (case v of
      PList xs \<Rightarrow> (case xs of [] \<Rightarrow> Inl (Exn IndexError ''list index out of range'')
                   | x # _ \<Rightarrow> Inr x)
    | PStr s \<Rightarrow> (case codepoints s of [] \<Rightarrow> Inl (Exn IndexError ''string index out of range'')
                 | c # _ \<Rightarrow> Inr (PStr c))
    | PDict d \<Rightarrow> Inl (Exn KeyError ''0'')
    | _ \<Rightarrow> Inl (not_subscriptable v))"

text \<open>\<^verbatim>\<open>v.get(k, default)\<close>; only a dictionary has the method.\<close>

definition py_get :: "pyval \<Rightarrow> string \<Rightarrow> pyval \<Rightarrow> exn + pyval" where
  "py_get v k dflt = (case v of
      PDict d \<Rightarrow> Inr (case map_of d k of Some x \<Rightarrow> x | None \<Rightarrow> dflt)
    | _ \<Rightarrow> Inl (no_attribute v ''get''))"

text \<open>\<^verbatim>\<open>v.lower()\<close>; only a string has the method.\<close>

definition py_lower :: "env \<Rightarrow> pyval \<Rightarrow> exn + string" where
  "py_lower E v = (case v of PStr s \<Rightarrow> Inr (lower E s) | _ \<Rightarrow> Inl (no_attribute v ''lower''))"

text \<open>
  \<^verbatim>\<open>v[:n]\<close> and \<^verbatim>\<open>len(v)\<close>. Slicing a dictionary raises (\<^verbatim>\<open>TypeError\<close> up to
  Python 3.11, \<^verbatim>\<open>KeyError\<close> from 3.12; both are below \<^verbatim>\<open>Exception\<close>).
\<close>

definition slice_to :: "nat \<Rightarrow> pyval \<Rightarrow> exn + pyval" where
  "slice_to n v = (case v of
      PList xs \<Rightarrow> Inr (PList (take n xs))
    | PStr s \<Rightarrow> Inr (PStr (str_slice_to n s))
    | PDict _ \<Rightarrow> Inl (Exn TypeError (''unhashable type: '' @ quoted ''slice''))
    | _ \<Rightarrow> Inl (not_subscriptable v))"

definition py_len :: "pyval \<Rightarrow> exn + nat" where
  "py_len v = (case v of
      PList xs \<Rightarrow> Inr (length xs)
    | PStr s \<Rightarrow> Inr (length (codepoints s))
    | PDict d \<Rightarrow> Inr (length d)
    | _ \<Rightarrow> Inl (Exn TypeError (''object of type '' @ quoted (type_name v) @ '' has no len()'')))"

text \<open>Iterating a value: the elements of a list, the characters of a string, the keys of a dictionary.\<close>

definition py_iter :: "pyval \<Rightarrow> exn + pyval list" where
  "py_iter v = (case v of
      PList xs \<Rightarrow> Inr xs
    | PStr s \<Rightarrow> Inr (map PStr (codepoints s))
    | PDict d \<Rightarrow> Inr (map (\<lambda>(k, _). PStr k) d)
    | _ \<Rightarrow> Inl (Exn TypeError (quoted (type_name v) @ '' object is not iterable'')))"

text \<open>\<^verbatim>\<open>sep.join(items)\<close>: every item must be a string.\<close>

fun first_non_str :: "nat \<Rightarrow> pyval list \<Rightarrow> (nat \<times> pyval) option" where
  "first_non_str i [] = None"
| "first_non_str i (PStr s # rest) = first_non_str (Suc i) rest"
| "first_non_str i (v # rest) = Some (i, v)"

fun join_strs :: "string \<Rightarrow> string list \<Rightarrow> string" where
  "join_strs sep [] = []"
| "join_strs sep [s] = s"
| "join_strs sep (s # rest) = s @ sep @ join_strs sep rest"

definition the_strs :: "pyval list \<Rightarrow> string list" where
  "the_strs items = concat (map (\<lambda>v. case v of PStr s \<Rightarrow> [s] | _ \<Rightarrow> []) items)"

definition py_join :: "env \<Rightarrow> string \<Rightarrow> pyval list \<Rightarrow> exn + pyval" where
  "py_join E sep items = (case first_non_str 0 items of
      Some (i, v) \<Rightarrow>
        Inl (Exn TypeError (''sequence item '' @ fmt E (PInt (int i))
               @ '': expected str instance, '' @ type_name v @ '' found''))
    | None \<Rightarrow> Inr (PStr (join_strs sep (the_strs items))))"

text \<open>\<^verbatim>\<open>isinstance(data,dict) and data.get('success') is False\<close>.\<close>

definition is_failure :: "pyval \<Rightarrow> bool" where
  "is_failure data = (case data of
      PDict d \<Rightarrow> map_of d ''success'' = Some (PBool False)
    | _ \<Rightarrow> False)"

text \<open>\<^verbatim>\<open>data.get('error')\<close> of a dictionary.\<close>

definition get_error :: "pyval \<Rightarrow> pyval" where
  "get_error data = (case data of
      PDict d \<Rightarrow> (case map_of d ''error'' of Some x \<Rightarrow> x | None \<Rightarrow> PNone)
    | _ \<Rightarrow> PNone)"

text \<open>\<^verbatim>\<open>requests.get(url)\<close>, logged.\<close>

definition http_get :: "env \<Rightarrow> pyval \<Rightarrow> world \<Rightarrow> response outcome" where
  "http_get E url w = (requests_get E url w, w\<lparr>http_log := http_log w @ [url]\<rparr>)"

text \<open>
  A bound method of one parameter, without and with a default value: any other argument
  list is a \<^verbatim>\<open>TypeError\<close> of the call, raised before the body starts.
\<close>

definition method1 ::
  "env \<Rightarrow> string \<Rightarrow> string \<Rightarrow> (pyval \<Rightarrow> world \<Rightarrow> pyval outcome) \<Rightarrow> pyval list callable" where
  "method1 E cls nm body =
     \<lparr>func_name = nm,
      call = (\<lambda>args w. case args of
                [x] \<Rightarrow> body x w
              | _ \<Rightarrow> (Inl (Exn TypeError (arity_error E (cls @ ''.'' @ nm) args)), w))\<rparr>"

definition method1d ::
  "env \<Rightarrow> string \<Rightarrow> string \<Rightarrow> pyval \<Rightarrow> (pyval \<Rightarrow> world \<Rightarrow> pyval outcome) \<Rightarrow> pyval list callable" where
  "method1d E cls nm dflt body =
     \<lparr>func_name = nm,
      call = (\<lambda>args w. case args of
                [] \<Rightarrow> body dflt w
              | [x] \<Rightarrow> body x w
              | _ \<Rightarrow> (Inl (Exn TypeError (arity_error E (cls @ ''.'' @ nm) args)), w))\<rparr>"

section \<open>eve.py: the Weather module\<close>

definition Weather_url :: "env \<Rightarrow> pyval \<Rightarrow> pyval" where
  "Weather_url E location = PStr
     (''http://api.weatherapi.com/v1/forecast.json?key='' @ fmt E (getenv E ''WEATHER_API_KEY'')
        @ ''&q='' @ fmt E location @ ''&aqi=no'')"

definition Weather_fetch_weather :: "env \<Rightarrow> pyval \<Rightarrow> world \<Rightarrow> pyval outcome" where
  "Weather_fetch_weather E location w =
     then_do (http_get E (Weather_url E location) w) (\<lambda>data w1.
       if status_code data = 200 then (json data, w1)
       else (and_then (json data) (\<lambda>j.
             and_then (getitem j ''error'') (\<lambda>c.
               Inl (Exn RuntimeError
                 (''Weather Module doesn't work with status code '' @ fmt E (PInt (status_code data))
                    @ '' and content '' @ fmt E c)))), w1))"

definition degrees :: string where
  "degrees = [CHR 0xC2, CHR 0xB0, CHR ''C'']"

definition Weather_format_data :: "env \<Rightarrow> pyval \<Rightarrow> exn + pyval" where
  "Weather_format_data E data =
     and_then (and_then (getitem data ''location'') (\<lambda>l. getitem l ''name'')) (\<lambda>location.
     and_then (and_then (and_then (getitem data ''current'') (\<lambda>c. getitem c ''condition''))
                 (\<lambda>c. getitem c ''text'')) (\<lambda>condition.
     and_then (and_then (getitem data ''current'') (\<lambda>c. getitem c ''temp_c'')) (\<lambda>temp.
     and_then (and_then (getitem data ''current'') (\<lambda>c. getitem c ''feelslike_c'')) (\<lambda>feels_like.
     and_then (and_then (getitem data ''current'') (\<lambda>c. getitem c ''humidity'')) (\<lambda>humidity.
     and_then (and_then (and_then (and_then (getitem data ''forecast'')
                 (\<lambda>f. getitem f ''forecastday'')) getitem0) (\<lambda>d. getitem d ''day''))
       (\<lambda>forecast_today.
     and_then (getitem forecast_today ''maxtemp_c'') (\<lambda>max_temp.
     and_then (getitem forecast_today ''mintemp_c'') (\<lambda>min_temp.
     and_then (py_get forecast_today ''daily_chance_of_rain'' (PInt 0)) (\<lambda>chance_of_rain.
     and_then (and_then (getitem forecast_today ''condition'') (\<lambda>c. getitem c ''text''))
       (\<lambda>forecast_condition.
     and_then (py_lower E condition) (\<lambda>condition_lower.
     and_then (py_lower E forecast_condition) (\<lambda>forecast_condition_lower.
       Inr (PStr
         (''Currently, it's '' @ condition_lower @ '' in '' @ fmt E location @ '' with ''
            @ fmt E temp @ degrees @ '' (feels like '' @ fmt E feels_like @ degrees @ '') ''
            @ ''and humidity at '' @ fmt E humidity @ ''%. ''
            @ ''Today's forecast: '' @ forecast_condition_lower @ '', highs of ''
            @ fmt E max_temp @ degrees @ '' and lows of '' @ fmt E min_temp @ degrees @ ''. ''
            @ ''Chance of rain is '' @ fmt E chance_of_rain @ ''%.''))))))))))))))"

text \<open>
  The instance after \<^verbatim>\<open>Weather.__init__\<close>: \<^verbatim>\<open>self._fetch_weather\<close> and
  \<^verbatim>\<open>self._format_data\<close> are looked up on the instance when \<^verbatim>\<open>main\<close> runs, so they
  are the wrapped attributes.
\<close>

definition Weather_fetch_weather_m :: "env \<Rightarrow> pyval list callable" where
  "Weather_fetch_weather_m E = method1 E ''Weather'' ''_fetch_weather'' (Weather_fetch_weather E)"

definition Weather_format_data_m :: "env \<Rightarrow> pyval list callable" where
  "Weather_format_data_m E =
     method1 E ''Weather'' ''_format_data'' (\<lambda>data w. (Weather_format_data E data, w))"

definition Weather_main :: "env \<Rightarrow> pyval \<Rightarrow> world \<Rightarrow> pyval outcome" where
  "Weather_main E location w =
     then_do (call (safe_run E (Weather_fetch_weather_m E)) [location] w) (\<lambda>fetched w1.
     then_do (call (safe_run E (Weather_format_data_m E)) [fetched] w1) (\<lambda>data w2.
       if is_failure data then (Inr (output_json (PBool False) (get_error data)), w2)
       else (Inr (output_json (PBool True) data), w2)))"

definition Weather_main_m :: "env \<Rightarrow> pyval list callable" where
  "Weather_main_m E = method1d E ''Weather'' ''main'' (PStr ''india'') (Weather_main E)"

section \<open>eve.py: the News module\<close>

definition News_news_format :: "env \<Rightarrow> pyval \<Rightarrow> exn + pyval" where
  "News_news_format E news =
     and_then (and_then (getitem news ''source'') (\<lambda>s. getitem s ''name'')) (\<lambda>source_name.
     and_then (getitem news ''description'') (\<lambda>description.
     and_then (getitem news ''url'') (\<lambda>url.
       Inr (PStr (''*'' @ fmt E source_name @ ''*'' @ [CHR 0x0A] @ '' '' @ fmt E description
                  @ [CHR 0x0A] @ ''Link:- '' @ fmt E url @ [CHR 0x0A])))))"

definition News_news_format_m :: "env \<Rightarrow> pyval list callable" where
  "News_news_format_m E =
     method1 E ''News'' ''_news_format'' (\<lambda>news w. (News_news_format E news, w))"

text \<open>\<^verbatim>\<open>list(map(f, items))\<close>: the calls in order, stopped by the first raise.\<close>

fun map_call :: "pyval list callable \<Rightarrow> pyval list \<Rightarrow> world \<Rightarrow> pyval list outcome" where
  "map_call f [] w = (Inr [], w)"
| "map_call f (x # xs) w =
     (case call f [x] w of
        (Inl e, w1) \<Rightarrow> (Inl e, w1)
      | (Inr y, w1) \<Rightarrow>
          (case map_call f xs w1 of
             (Inl e, w2) \<Rightarrow> (Inl e, w2)
           | (Inr ys, w2) \<Rightarrow> (Inr (y # ys), w2)))"

definition News_filter_data :: "env \<Rightarrow> pyval \<Rightarrow> world \<Rightarrow> pyval outcome" where
  "News_filter_data E data w =
     then_do (and_then (and_then (getitem data ''articles'') (slice_to 10)) py_iter, w)
       (\<lambda>items w1.
     then_do (map_call (safe_run E (News_news_format_m E)) items w1) (\<lambda>texts w2.
       (py_join E [CHR 0x0A] texts, w2)))"

definition News_filter_data_m :: "env \<Rightarrow> pyval list callable" where
  "News_filter_data_m E = method1 E ''News'' ''_filter_data'' (News_filter_data E)"

definition News_url :: "env \<Rightarrow> pyval \<Rightarrow> world \<Rightarrow> pyval" where
  "News_url E topic w = PStr
     (''https://newsapi.org/v2/everything?q='' @ fmt E topic @ ''&from='' @ yesterday E w
        @ ''&sortBy=publishedAt&apiKey='' @ fmt E (getenv E ''NEWS_API_KEY''))"

text \<open>The \<^verbatim>\<open>try\<close>/\<^verbatim>\<open>except Exception\<close> of \<^verbatim>\<open>_fetch_news\<close>.\<close>

definition News_error_message :: "response \<Rightarrow> exn + pyval" where
  "News_error_message response =
     (case and_then (json response) (\<lambda>j. py_get j ''message'' (PStr ''No message provided'')) of
        Inr m \<Rightarrow> Inr m
      | Inl e \<Rightarrow>
          if is_Exception e
          then and_then (content_decoded response) (\<lambda>s. Inr (PStr s))
          else Inl e)"

definition News_fetch_news :: "env \<Rightarrow> pyval \<Rightarrow> world \<Rightarrow> pyval outcome" where
  "News_fetch_news E topic w =
     then_do (http_get E (News_url E topic w) w) (\<lambda>response w1.
       if status_code response = 200
       then then_do (json response, w1) (\<lambda>j w2.
              call (safe_run E (News_filter_data_m E)) [j] w2)
       else (and_then (News_error_message response) (\<lambda>error_message.
               Inl (Exn RuntimeError
                 (''News API Error:'' @ [CHR 0x0A]
                    @ ''Topic: '' @ quoted (fmt E topic) @ [CHR 0x0A]
                    @ ''Status Code: '' @ fmt E (PInt (status_code response)) @ [CHR 0x0A]
                    @ ''Message: '' @ fmt E error_message))), w1))"

definition News_fetch_news_m :: "env \<Rightarrow> pyval list callable" where
  "News_fetch_news_m E = method1 E ''News'' ''_fetch_news'' (News_fetch_news E)"

definition News_main :: "env \<Rightarrow> pyval \<Rightarrow> world \<Rightarrow> pyval outcome" where
  "News_main E topic w =
     then_do (call (safe_run E (News_fetch_news_m E)) [topic] w) (\<lambda>data w1.
       if is_failure data then (Inr (output_json (PBool False) (get_error data)), w1)
       else (Inr (output_json (PBool True) data), w1))"

definition News_main_m :: "env \<Rightarrow> pyval list callable" where
  "News_main_m E = method1d E ''News'' ''main'' (PStr ''india'') (News_main E)"

section \<open>eve.py: the Google Search module\<close>

definition GoogleSearch_scrape_webpage :: "env \<Rightarrow> pyval \<Rightarrow> exn + pyval" where
  "GoogleSearch_scrape_webpage E data =
     and_then (soup_paragraphs E data) (\<lambda>results.
       case results of
         None \<Rightarrow> Inl (no_attribute PNone ''find_all'')
       | Some ps \<Rightarrow>
           Inr (PStr (join_strs [CHR 0x0A]
                  (filter (\<lambda>item. 50 < length (codepoints item)) ps))))"

definition GoogleSearch_scrape_webpage_m :: "env \<Rightarrow> pyval list callable" where
  "GoogleSearch_scrape_webpage_m E =
     method1 E ''GoogleSearch'' ''_scrape_webpage''
       (\<lambda>data w. (GoogleSearch_scrape_webpage E data, w))"

definition GoogleSearch_get_webpage :: "env \<Rightarrow> pyval \<Rightarrow> world \<Rightarrow> pyval outcome" where
  "GoogleSearch_get_webpage E link w =
     then_do (http_get E link w) (\<lambda>response w1.
     then_do (content_decoded response, w1) (\<lambda>text w2.
       call (safe_run E (GoogleSearch_scrape_webpage_m E)) [PStr text] w2))"

definition GoogleSearch_get_webpage_m :: "env \<Rightarrow> pyval list callable" where
  "GoogleSearch_get_webpage_m E =
     method1 E ''GoogleSearch'' ''_get_webpage'' (GoogleSearch_get_webpage E)"

definition GoogleSearch_url :: "env \<Rightarrow> pyval \<Rightarrow> pyval" where
  "GoogleSearch_url E topic = PStr
     (''https://www.googleapis.com/customsearch/v1?key='' @ fmt E (getenv E ''SEARCH_API_KEY'')
        @ ''&cx='' @ fmt E (getenv E ''SEARCH_CSX_ID'') @ ''&q='' @ fmt E topic @ '' wikipedia'')"

text \<open>\<^verbatim>\<open>response.json()['items'][0]['formattedUrl']\<close>.\<close>

definition GoogleSearch_first_url :: "response \<Rightarrow> exn + pyval" where
  "GoogleSearch_first_url response =
     and_then (and_then (and_then (json response) (\<lambda>j. getitem j ''items'')) getitem0)
       (\<lambda>item. getitem item ''formattedUrl'')"

definition GoogleSearch_do_google_search :: "env \<Rightarrow> pyval \<Rightarrow> world \<Rightarrow> pyval outcome" where
  "GoogleSearch_do_google_search E topic w =
     then_do (http_get E (GoogleSearch_url E topic) w) (\<lambda>response w1.
       if status_code response = 200
       then then_do (GoogleSearch_first_url response, w1) (\<lambda>link w2.
              call (safe_run E (GoogleSearch_get_webpage_m E)) [link] w2)
       else (and_then (content_decoded response) (\<lambda>text.
               Inl (Exn RuntimeError
                 (''Error in Google search with status code : ''
                    @ fmt E (PInt (status_code response)) @ '' Message : '' @ text))), w1))"

definition GoogleSearch_do_google_search_m :: "env \<Rightarrow> pyval list callable" where
  "GoogleSearch_do_google_search_m E =
     method1 E ''GoogleSearch'' ''_do_google_search'' (GoogleSearch_do_google_search E)"

definition GoogleSearch_main :: "env \<Rightarrow> pyval \<Rightarrow> world \<Rightarrow> pyval outcome" where
  "GoogleSearch_main E topic w =
     then_do (call (safe_run E (GoogleSearch_do_google_search_m E)) [topic] w) (\<lambda>data w1.
       if is_failure data then (Inr (output_json (PBool False) (get_error data)), w1)
       else (Inr (output_json (PBool True) data), w1))"

definition GoogleSearch_main_m :: "env \<Rightarrow> pyval list callable" where
  "GoogleSearch_main_m E = method1d E ''GoogleSearch'' ''main'' (PStr []) (GoogleSearch_main E)"

section \<open>eve.py: the pattern of \<^verbatim>\<open>_extract_json\<close>\<close>

text \<open>
  \<^verbatim>\<open>re.search\<close> for patterns that are a sequence of one-character items, each taken once,
  or repeated lazily (\<^verbatim>\<open>*?\<close>) or greedily (\<^verbatim>\<open>*\<close>): the backtracking search of
  Python's engine, over the code points of the text. \<open>match_here\<close> gives what the
  pattern consumes at the start of the text, the first alternative that succeeds in the
  engine's order; \<open>search_from\<close> tries the start positions from the left.
\<close>

datatype atom = Lit char | Dot | Space

datatype quant = Once | Lazy | Greedy

definition is_space :: "string \<Rightarrow> bool" where
  "is_space cp = (cp \<in> set
     [[CHR 0x09], [CHR 0x0A], [CHR 0x0B], [CHR 0x0C], [CHR 0x0D],
      [CHR 0x1C], [CHR 0x1D], [CHR 0x1E], [CHR 0x1F], [CHR 0x20],
      [CHR 0xC2, CHR 0x85], [CHR 0xC2, CHR 0xA0], [CHR 0xE1, CHR 0x9A, CHR 0x80],
      [CHR 0xE2, CHR 0x80, CHR 0x80], [CHR 0xE2, CHR 0x80, CHR 0x81],
      [CHR 0xE2, CHR 0x80, CHR 0x82], [CHR 0xE2, CHR 0x80, CHR 0x83],
      [CHR 0xE2, CHR 0x80, CHR 0x84], [CHR 0xE2, CHR 0x80, CHR 0x85],
      [CHR 0xE2, CHR 0x80, CHR 0x86], [CHR 0xE2, CHR 0x80, CHR 0x87],
      [CHR 0xE2, CHR 0x80, CHR 0x88], [CHR 0xE2, CHR 0x80, CHR 0x89],
      [CHR 0xE2, CHR 0x80, CHR 0x8A], [CHR 0xE2, CHR 0x80, CHR 0xA8],
      [CHR 0xE2, CHR 0x80, CHR 0xA9], [CHR 0xE2, CHR 0x80, CHR 0xAF],
      [CHR 0xE2, CHR 0x81, CHR 0x9F], [CHR 0xE3, CHR 0x80, CHR 0x80]])"

fun matches_atom :: "atom \<Rightarrow> string \<Rightarrow> bool" where
  "matches_atom (Lit c) cp = (cp = [c])"
| "matches_atom Dot cp = (cp \<noteq> [CHR 0x0A])"
| "matches_atom Space cp = is_space cp"

fun match_here :: "(atom \<times> quant) list \<Rightarrow> string list \<Rightarrow> string list option" where
  "match_here [] s = Some []"
| "match_here ((a, Once) # ps) [] = None"
| "match_here ((a, Once) # ps) (c # cs) =
     (if matches_atom a c then map_option (Cons c) (match_here ps cs) else None)"
| "match_here ((a, Lazy) # ps) [] = match_here ps []"
| "match_here ((a, Lazy) # ps) (c # cs) =
     (case match_here ps (c # cs) of
        Some m \<Rightarrow> Some m
      | None \<Rightarrow>
          if matches_atom a c then map_option (Cons c) (match_here ((a, Lazy) # ps) cs)
          else None)"
| "match_here ((a, Greedy) # ps) [] = match_here ps []"
| "match_here ((a, Greedy) # ps) (c # cs) =
     (if matches_atom a c
      then (case match_here ((a, Greedy) # ps) cs of
              Some m \<Rightarrow> Some (c # m)
            | None \<Rightarrow> match_here ps (c # cs))
      else match_here ps (c # cs))"

fun search_from :: "(atom \<times> quant) list \<Rightarrow> string list \<Rightarrow> string list option" where
  "search_from p [] = match_here p []"
| "search_from p (c # cs) =
     (case match_here p (c # cs) of Some m \<Rightarrow> Some m | None \<Rightarrow> search_from p cs)"

text \<open>
  The pattern \<^verbatim>\<open>r'\{.*?"tool"\s*:\s*".*?".*?\}'\<close> that \<^verbatim>\<open>_extract_json\<close> binds
  locally (the module-level \<^verbatim>\<open>pattern\<close> of line 51 is never used), and
  \<^verbatim>\<open>match.group()\<close>.
\<close>

definition pattern :: "(atom \<times> quant) list" where
  "pattern =
     [(Lit (CHR 0x7B), Once), (Dot, Lazy),
      (Lit (CHR 0x22), Once), (Lit CHR ''t'', Once), (Lit CHR ''o'', Once),
      (Lit CHR ''o'', Once), (Lit CHR ''l'', Once), (Lit (CHR 0x22), Once),
      (Space, Greedy), (Lit CHR '':'', Once), (Space, Greedy),
      (Lit (CHR 0x22), Once), (Dot, Lazy), (Lit (CHR 0x22), Once),
      (Dot, Lazy), (Lit (CHR 0x7D), Once)]"

definition re_search :: "string \<Rightarrow> string option" where
  "re_search generated_text = map_option concat (search_from pattern (codepoints generated_text))"

section \<open>eve.py: the assistant\<close>

text \<open>
  Bound methods with a default for the last parameter, and with no parameter.
\<close>

definition method2d ::
  "env \<Rightarrow> string \<Rightarrow> string \<Rightarrow> pyval \<Rightarrow> (pyval \<Rightarrow> pyval \<Rightarrow> world \<Rightarrow> pyval outcome)
     \<Rightarrow> pyval list callable" where
  "method2d E cls nm dflt body =
     \<lparr>func_name = nm,
      call = (\<lambda>args w. case args of
                [x] \<Rightarrow> body x dflt w
              | [x, y] \<Rightarrow> body x y w
              | _ \<Rightarrow> (Inl (Exn TypeError (arity_error E (cls @ ''.'' @ nm) args)), w))\<rparr>"

definition method3d ::
  "env \<Rightarrow> string \<Rightarrow> string \<Rightarrow> pyval
     \<Rightarrow> (pyval \<Rightarrow> pyval \<Rightarrow> pyval \<Rightarrow> world \<Rightarrow> pyval outcome) \<Rightarrow> pyval list callable" where
  "method3d E cls nm dflt body =
     \<lparr>func_name = nm,
      call = (\<lambda>args w. case args of
                [x, y] \<Rightarrow> body x y dflt w
              | [x, y, z] \<Rightarrow> body x y z w
              | _ \<Rightarrow> (Inl (Exn TypeError (arity_error E (cls @ ''.'' @ nm) args)), w))\<rparr>"

definition method0 ::
  "env \<Rightarrow> string \<Rightarrow> string \<Rightarrow> (world \<Rightarrow> pyval outcome) \<Rightarrow> pyval list callable" where
  "method0 E cls nm body =
     \<lparr>func_name = nm,
      call = (\<lambda>args w. case args of
                [] \<Rightarrow> body w
              | _ \<Rightarrow> (Inl (Exn TypeError (arity_error E (cls @ ''.'' @ nm) args)), w))\<rparr>"

text \<open>
  The tool registry \<^verbatim>\<open>self.TOOLS\<close> is a dictionary from tool names to the \<^verbatim>\<open>main\<close>
  attributes of the three module instances, which are wrapped.
\<close>

type_synonym registry = "(string \<times> pyval list callable) list"

definition Eve_TOOLS :: "env \<Rightarrow> registry" where
  "Eve_TOOLS E =
     [(''get_weather'', safe_run E (Weather_main_m E)),
      (''get_news'', safe_run E (News_main_m E)),
      (''get_search'', safe_run E (GoogleSearch_main_m E))]"

text \<open>
  \<^verbatim>\<open>tool_name in self.TOOLS\<close> and \<^verbatim>\<open>self.TOOLS[tool_name]\<close>: a list or a dictionary
  cannot be hashed, and a value that is not a string equals no key.
\<close>

definition py_in :: "pyval \<Rightarrow> registry \<Rightarrow> exn + bool" where
  "py_in tool_name TOOLS = (case tool_name of
      PStr s \<Rightarrow> Inr (s \<in> set (map fst TOOLS))
    | PList _ \<Rightarrow> Inl (Exn TypeError (''unhashable type: '' @ quoted ''list''))
    | PDict _ \<Rightarrow> Inl (Exn TypeError (''unhashable type: '' @ quoted ''dict''))
    | _ \<Rightarrow> Inr False)"

definition registry_getitem :: "env \<Rightarrow> registry \<Rightarrow> pyval \<Rightarrow> exn + pyval list callable" where
  "registry_getitem E TOOLS tool_name = (case tool_name of
      PStr s \<Rightarrow> (case map_of TOOLS s of
                   Some tool_func \<Rightarrow> Inr tool_func
                 | None \<Rightarrow> Inl (Exn KeyError (quoted s)))
    | PList _ \<Rightarrow> Inl (Exn TypeError (''unhashable type: '' @ quoted ''list''))
    | PDict _ \<Rightarrow> Inl (Exn TypeError (''unhashable type: '' @ quoted ''dict''))
    | _ \<Rightarrow> Inl (Exn KeyError (fmt E tool_name)))"

definition unknown_function :: pyval where
  "unknown_function =
     PDict [(''success'', PBool False), (''data'', PStr ''unknown function called'')]"

definition Eve_call_module ::
  "env \<Rightarrow> registry \<Rightarrow> pyval \<Rightarrow> pyval \<Rightarrow> world \<Rightarrow> pyval outcome" where
  "Eve_call_module E TOOLS tool_dict user_input w =
     then_do (py_get tool_dict ''tool'' PNone, w) (\<lambda>tool_name w.
     then_do (py_get tool_dict ''input'' user_input, w) (\<lambda>input_value w.
     then_do (py_in tool_name TOOLS, w) (\<lambda>known w.
       if known
       then then_do (registry_getitem E TOOLS tool_name, w) (\<lambda>tool_func w.
              call tool_func [input_value] w)
       else (Inr unknown_function, w))))"

definition Eve_call_module_m :: "env \<Rightarrow> registry \<Rightarrow> pyval list callable" where
  "Eve_call_module_m E TOOLS =
     method2d E ''Eve'' ''_call_module'' (PStr []) (Eve_call_module E TOOLS)"

text \<open>\<^verbatim>\<open>ollama.chat(..., stream=True)\<close>, logged, and the loop that prints the tokens.\<close>

definition chat :: "env \<Rightarrow> pyval \<Rightarrow> pyval list \<Rightarrow> world \<Rightarrow> (string list \<times> exn option) outcome" where
  "chat E model messages w =
     (ollama_chat E model messages w, w\<lparr>chat_log := chat_log w @ [(model, messages)]\<rparr>)"

definition print_tokens :: "string list \<Rightarrow> world \<Rightarrow> world" where
  "print_tokens tokens w = foldl (\<lambda>w token. print_end [PStr token] [] w) w tokens"

definition chat_message :: "string \<Rightarrow> pyval \<Rightarrow> pyval" where
  "chat_message role content = PDict [(''role'', PStr role), (''content'', content)]"

definition Eve_generate_response ::
  "env \<Rightarrow> pyval \<Rightarrow> pyval \<Rightarrow> pyval \<Rightarrow> world \<Rightarrow> pyval outcome" where
  "Eve_generate_response E tool_response user_text data w =
     then_do (py_len data, w) (\<lambda>n w.
     then_do
       (chat E (getenv E ''MODEL'')
          [chat_message ''system'' (getenv E ''SYSTEM_PROMPT_RESPONDER''),
           chat_message ''user'' (PStr
             (''User Input :-'' @ [CHR 0x0A] @ fmt E user_text @ [CHR 0x0A]
                @ ''Tool Response :-'' @ [CHR 0x0A] @ fmt E tool_response @ '' Data :- ''
                @ fmt E (if n < 300 then data
                         else PStr ''Data is too long just say heres some additional info'')))]
          w)
       (\<lambda>(tokens, ending) w1.
          case ending of
            Some e \<Rightarrow> (Inl e, print_tokens tokens w1)
          | None \<Rightarrow>
              then_do (slice_to 1000 data, print_tokens tokens w1) (\<lambda>shown w2.
                (Inr PNone,
                 print [PStr ([CHR 0x0A, CHR 0x60, CHR 0x60, CHR 0x60, CHR 0x0A] @ ''Data :-''),
                        shown, PStr [CHR 0x0A]] w2))))"

definition Eve_generate_response_m :: "env \<Rightarrow> pyval list callable" where
  "Eve_generate_response_m E =
     method3d E ''Eve'' ''_generate_response'' (PStr []) (Eve_generate_response E)"

definition Eve_extract_json :: "env \<Rightarrow> registry \<Rightarrow> pyval \<Rightarrow> pyval \<Rightarrow> world \<Rightarrow> pyval outcome" where
  "Eve_extract_json E TOOLS generated_text user_text w =
     (case generated_text of
        PStr text \<Rightarrow>
          (case re_search text of
             Some matched \<Rightarrow>
               then_do (json_loads E matched, w) (\<lambda>tool w0.
               then_do (call (safe_run E (Eve_call_module_m E TOOLS)) [tool, user_text]
                          (print [PStr ''Tool :-'', tool] w0)) (\<lambda>response w1.
               then_do (getitem response ''success'', print [PStr ''Response : '', response] w1)
                 (\<lambda>succes w2.
               then_do (getitem response ''data'', w2) (\<lambda>data w3.
               then_do (call (safe_run E (Eve_generate_response_m E)) [succes, user_text, data] w3)
                 (\<lambda>_ w4. (Inr PNone, w4))))))
           | None \<Rightarrow> (Inr PNone, print [PStr ''Medusa :-'', generated_text] w))
      | _ \<Rightarrow>
          (Inl (Exn TypeError (''expected string or bytes-like object, got ''
                  @ quoted (type_name generated_text))), w))"

definition Eve_extract_json_m :: "env \<Rightarrow> registry \<Rightarrow> pyval list callable" where
  "Eve_extract_json_m E TOOLS =
     method2d E ''Eve'' ''_extract_json'' (PStr []) (Eve_extract_json E TOOLS)"

text \<open>
  \<^verbatim>\<open>run\<close>. The list holds what each \<^verbatim>\<open>input\<close> call will give, a line or a raise
  (Ctrl-C is \<^verbatim>\<open>KeyboardInterrupt\<close>); when the list is used up the input is at its end
  and \<^verbatim>\<open>input\<close> raises \<^verbatim>\<open>EOFError\<close>. One iteration of the \<^verbatim>\<open>while True\<close> is one
  unfolding of \<open>run_loop\<close>; \<open>prompted\<close> is the world after \<^verbatim>\<open>print()\<close> and the prompt
  that \<^verbatim>\<open>input\<close> writes, \<open>routing_messages\<close> the messages of the first chat call.
\<close>

definition prompted :: "world \<Rightarrow> world" where
  "prompted w = print_end [PStr ''Chat with Eve :-''] [] (print [] w)"

definition routing_messages :: "env \<Rightarrow> string \<Rightarrow> pyval list" where
  "routing_messages E user_input =
     [chat_message ''system'' (getenv E ''SYSTEM_PROMPT_TOOL''),
      chat_message ''user'' (PStr user_input)]"

fun run_loop :: "env \<Rightarrow> registry \<Rightarrow> (exn + string) list \<Rightarrow> world \<Rightarrow> pyval outcome" where
  "run_loop E TOOLS [] w = (Inl (Exn EOFError ''EOF when reading a line''), prompted w)"
| "run_loop E TOOLS (line # rest) w =
     (case line of
        Inl e \<Rightarrow> (Inl e, prompted w)
      | Inr user_input \<Rightarrow>
          if user_input = ''break''
          then (Inr PNone, prompted w)
          else
            (case chat E (getenv E ''MODEL'') (routing_messages E user_input) (prompted w) of
               (Inl e, w1) \<Rightarrow> (Inl e, w1)
             | (Inr (tokens, Some e), w1) \<Rightarrow> (Inl e, print_tokens tokens w1)
             | (Inr (tokens, None), w1) \<Rightarrow>
                 (case call (safe_run E (Eve_extract_json_m E TOOLS))
                         [PStr (concat tokens), PStr user_input]
                         (print [PStr [CHR 0x0A]] (print_tokens tokens w1)) of
                    (Inl e, w2) \<Rightarrow> (Inl e, w2)
                  | (Inr _, w2) \<Rightarrow> run_loop E TOOLS rest w2)))"

definition Eve_run :: "env \<Rightarrow> registry \<Rightarrow> (exn + string) list \<Rightarrow> world \<Rightarrow> pyval outcome" where
  "Eve_run E TOOLS inputs w = run_loop E TOOLS inputs w"

definition Eve_run_m :: "env \<Rightarrow> registry \<Rightarrow> (exn + string) list \<Rightarrow> pyval list callable" where
  "Eve_run_m E TOOLS inputs = method0 E ''Eve'' ''run'' (Eve_run E TOOLS inputs)"

section \<open>eve.py: the instances and the script\<close>

text \<open>
  The attribute table of an instance when \<^verbatim>\<open>__init__\<close> starts holds the methods of
  its class, before what it inherits from \<^verbatim>\<open>ErrorHandler\<close> and \<^verbatim>\<open>object\<close>
  (\<^verbatim>\<open>__init__\<close>, \<^verbatim>\<open>_wrap_modules\<close>, \<^verbatim>\<open>__class__\<close>, ...), which is a parameter.
  \<^verbatim>\<open>__init__\<close> calls \<^verbatim>\<open>super().__init__()\<close> first and sets its data attributes after.
\<close>

definition Weather_attrs :: "env \<Rightarrow> obj \<Rightarrow> obj" where
  "Weather_attrs E inherited =
     [(''_fetch_weather'', Method (Weather_fetch_weather_m E)),
      (''_format_data'', Method (Weather_format_data_m E)),
      (''main'', Method (Weather_main_m E))] @ inherited"

definition Weather_init :: "env \<Rightarrow> obj \<Rightarrow> obj" where
  "Weather_init E inherited =
     setattr (setattr (setattr (ErrorHandler_init E (Weather_attrs E inherited))
       ''_description'' (Data (PStr
          ''Fetches current weather and forecast for a given location using WeatherAPI.'')))
       ''_api_key'' (Data (getenv E ''WEATHER_API_KEY'')))
       ''_url'' (Data (PStr ''http://api.weatherapi.com/v1/forecast.json?key={}&q={}&aqi=no''))"

definition News_attrs :: "env \<Rightarrow> obj \<Rightarrow> obj" where
  "News_attrs E inherited =
     [(''_news_format'', Method (News_news_format_m E)),
      (''_filter_data'', Method (News_filter_data_m E)),
      (''_fetch_news'', Method (News_fetch_news_m E)),
      (''main'', Method (News_main_m E))] @ inherited"

definition News_init :: "env \<Rightarrow> obj \<Rightarrow> obj" where
  "News_init E inherited =
     setattr (setattr (setattr (ErrorHandler_init E (News_attrs E inherited))
       ''_description'' (Data (PStr
          ''Fetches the latest news articles based on a specific topic using NewsAPI.'')))
       ''_api_url'' (Data (PStr
          ''https://newsapi.org/v2/everything?q={}&from={}&sortBy=publishedAt&apiKey={}'')))
       ''_api_key'' (Data (getenv E ''NEWS_API_KEY''))"

definition GoogleSearch_attrs :: "env \<Rightarrow> obj \<Rightarrow> obj" where
  "GoogleSearch_attrs E inherited =
     [(''_scrape_webpage'', Method (GoogleSearch_scrape_webpage_m E)),
      (''_get_webpage'', Method (GoogleSearch_get_webpage_m E)),
      (''_do_google_search'', Method (GoogleSearch_do_google_search_m E)),
      (''main'', Method (GoogleSearch_main_m E))] @ inherited"

definition GoogleSearch_init :: "env \<Rightarrow> obj \<Rightarrow> obj" where
  "GoogleSearch_init E inherited =
     setattr (setattr (setattr (ErrorHandler_init E (GoogleSearch_attrs E inherited))
       ''_description'' (Data (PStr
          (''Performs a Google search and scrapes Wikipedia content for the search topic. ''
             @ ''use when the user explcitly asks for google search''))))
       ''_api_key'' (Data (getenv E ''SEARCH_API_KEY'')))
       ''_cx'' (Data (getenv E ''SEARCH_CSX_ID''))"

definition Eve_attrs :: "env \<Rightarrow> (exn + string) list \<Rightarrow> obj \<Rightarrow> obj" where
  "Eve_attrs E inputs inherited =
     [(''_call_module'', Method (Eve_call_module_m E (Eve_TOOLS E))),
      (''_generate_response'', Method (Eve_generate_response_m E)),
      (''_extract_json'', Method (Eve_extract_json_m E (Eve_TOOLS E))),
      (''run'', Method (Eve_run_m E (Eve_TOOLS E) inputs))] @ inherited"

definition Eve_init :: "env \<Rightarrow> (exn + string) list \<Rightarrow> obj \<Rightarrow> obj" where
  "Eve_init E inputs inherited =
     setattr (setattr (setattr (setattr (ErrorHandler_init E (Eve_attrs E inputs inherited))
       ''MODEL'' (Data (getenv E ''MODEL'')))
       ''SYSTEM_PROMPT'' (Data (getenv E ''SYSTEM_PROMPT_TOOL'')))
       ''SYSTEM_PROMPT_RESPONDER'' (Data (getenv E ''SYSTEM_PROMPT_RESPONDER'')))
       ''TOOLS'' (Table (Eve_TOOLS E))"

text \<open>
  The statements of the module, top to bottom: the three trial calls, the construction of
  the assistant and \<^verbatim>\<open>eve.run()\<close>. The process ends when this returns or raises.
\<close>

definition eve_script :: "env \<Rightarrow> (exn + string) list \<Rightarrow> world \<Rightarrow> pyval outcome" where
  "eve_script E inputs w =
     then_do (call (safe_run E (GoogleSearch_main_m E)) [PStr ''elon musk''] w) (\<lambda>r1 w1.
     then_do (call (safe_run E (Weather_main_m E)) [PStr ''chandigarh''] (print [r1] w1))
       (\<lambda>r2 w2.
     then_do (call (safe_run E (News_main_m E)) [PStr ''terrorist''] (print [r2] w2))
       (\<lambda>r3 w3.
     then_do (call (safe_run E (Eve_run_m E (Eve_TOOLS E) inputs)) []
                (print [PStr (''Eve Started Successfully :-'' @ [CHR 0x0A])]
                (print [PStr ''System prompt responder : '', getenv E ''SYSTEM_PROMPT_RESPONDER'']
                (print [PStr ''System prompt : '', getenv E ''SYSTEM_PROMPT_TOOL'']
                (print [PStr ''Initializing Eve''] (print [r3] w3))))))
       (\<lambda>_ w4. (Inr PNone, w4)))))"

section \<open>Inputs of the examples\<close>

text \<open>Operations that return their arguments, and that raise a given exception.\<close>

definition returning :: "pyval list callable" where
  "returning = \<lparr>func_name = ''op'', call = (\<lambda>args w. (Inr (PList args), w))\<rparr>"

definition raising :: "exn \<Rightarrow> pyval list callable" where
  "raising e = \<lparr>func_name = ''op'', call = (\<lambda>args w. (Inl e, w))\<rparr>"

text \<open>An environment in which every request fails to connect.\<close>

definition refused :: exn where
  "refused = Exn (OtherError ''ConnectionError'') ''Connection refused''"

definition without_network :: "env \<Rightarrow> env" where
  "without_network E = E\<lparr>requests_get := (\<lambda>url w. Inl refused)\<rparr>"

text \<open>An environment that formats a string as the string itself, as \<^verbatim>\<open>str.format\<close> does.\<close>

definition with_str_fmt :: "env \<Rightarrow> env" where
  "with_str_fmt E = E\<lparr>fmt := (\<lambda>v. case v of PStr s \<Rightarrow> s | _ \<Rightarrow> fmt E v)\<rparr>"

text \<open>An environment in which every request is answered with a given response.\<close>

definition with_response :: "response \<Rightarrow> env \<Rightarrow> env" where
  "with_response r E = E\<lparr>requests_get := (\<lambda>url w. Inr r)\<rparr>"

definition no_articles :: response where
  "no_articles = \<lparr>status_code = 200, json = Inr (PDict [(''articles'', PList [])]),
                  content_decoded = Inr ''{\"articles\": []}''\<rparr>"

text \<open>An environment in which every request is interrupted by Ctrl-C.\<close>

definition interrupted :: "env \<Rightarrow> env" where
  "interrupted E = E\<lparr>requests_get := (\<lambda>url w. Inl (Exn KeyboardInterrupt []))\<rparr>"

text \<open>
  Environments in which \<^verbatim>\<open>json.loads\<close> gives a stated answer for one text, and in
  which every chat call has a stated outcome; the texts of the examples.
\<close>

definition with_json :: "string \<Rightarrow> exn + pyval \<Rightarrow> env \<Rightarrow> env" where
  "with_json s r E = E\<lparr>json_loads := (\<lambda>t. if t = s then r else json_loads E t)\<rparr>"

definition with_chat :: "exn + string list \<times> exn option \<Rightarrow> env \<Rightarrow> env" where
  "with_chat r E = E\<lparr>ollama_chat := (\<lambda>model messages w. r)\<rparr>"

definition sure_thing :: string where
  \<open>sure_thing = ''Sure thing! {"tool":"get_weather","input":"delhi"} ''
      @ [CHR 0xE2, CHR 0x80, CHR 0x94] @ '' let me check.''\<close>

definition delhi_request_text :: string where
  \<open>delhi_request_text = ''{"tool":"get_weather","input":"delhi"}''\<close>

definition delhi_request :: pyval where
  "delhi_request = PDict [(''tool'', PStr ''get_weather''), (''input'', PStr ''delhi'')]"

definition malformed_reply :: string where
  \<open>malformed_reply = ''Sure {"tool": "get_weather", "input": }''\<close>

definition malformed_request_text :: string where
  \<open>malformed_request_text = ''{"tool": "get_weather", "input": }''\<close>

definition decode_error :: exn where
  "decode_error = Exn (OtherError ''JSONDecodeError'') ''Expecting value: line 1 column 34 (char 33)''"





text \<open>
  An environment in which no request connects and a fetched page would have no content
  block: none of the tools of the assistant gets an answer.
\<close>

definition unreachable :: "env \<Rightarrow> env" where
  "unreachable E = without_network (E\<lparr>soup_paragraphs := (\<lambda>data. Inr None)\<rparr>)"

text \<open>
  An environment in which the model server answers the routing call for one user input with
  a given reply and refuses every other chat call; with it, one in which the routing call
  for \<^verbatim>\<open>hello\<close> asks for the weather of Delhi, no request connects and the responder
  call is refused.
\<close>

definition with_routing_reply :: "string \<Rightarrow> string \<Rightarrow> env \<Rightarrow> env" where
  "with_routing_reply user_input reply E = E\<lparr>ollama_chat :=
     (\<lambda>model messages w.
        if messages = routing_messages E user_input then Inr ([reply], None) else Inl refused)\<rparr>"

definition responder_down :: "env \<Rightarrow> env" where
  "responder_down E =
     with_routing_reply ''hello'' sure_thing
       (with_json delhi_request_text (Inr delhi_request) (without_network E))"

section \<open>Predicates of the statements\<close>

text \<open>A value that is a dictionary with a boolean under \<^verbatim>\<open>success\<close>.\<close>

definition has_bool_success :: "pyval \<Rightarrow> bool" where
  "has_bool_success v = (case v of
      PDict items \<Rightarrow> (case map_of items ''success'' of Some (PBool b) \<Rightarrow> True | _ \<Rightarrow> False)
    | _ \<Rightarrow> False)"

text \<open>An expression that raises nothing outside \<^verbatim>\<open>Exception\<close>.\<close>

definition below_Exception :: "exn + 'a \<Rightarrow> bool" where
  "below_Exception m = (case m of Inl e \<Rightarrow> is_Exception e | Inr _ \<Rightarrow> True)"

text \<open>
  The world in which \<^verbatim>\<open>run\<close> calls \<^verbatim>\<open>self._extract_json\<close>: after the prompt, the
  chat call, the printed tokens and the empty line.
\<close>

definition after_chat :: "env \<Rightarrow> string \<Rightarrow> string list \<Rightarrow> world \<Rightarrow> world" where
  "after_chat E user_input tokens w =
     print [PStr [CHR 0x0A]] (print_tokens tokens
       ((prompted w)\<lparr>chat_log := chat_log (prompted w)
            @ [(getenv E ''MODEL'', routing_messages E user_input)]\<rparr>))"

text \<open>
  An expression that raises nothing whose text is that of the unknown-function envelope;
  libraries none of whose exceptions has that text; and an outcome that is neither such an
  exception nor an error object with that text.
\<close>

definition other_text :: "exn + 'a \<Rightarrow> bool" where
  "other_text m = (case m of
      Inl e \<Rightarrow> message e \<noteq> ''unknown function called''
    | Inr _ \<Rightarrow> True)"

definition library_texts_differ :: "env \<Rightarrow> bool" where
  "library_texts_differ E =
     ((\<forall>url w. other_text (requests_get E url w)) \<and>
      (\<forall>url w r. requests_get E url w = Inr r \<longrightarrow>
         other_text (json r) \<and> other_text (content_decoded r)) \<and>
      (\<forall>data. other_text (soup_paragraphs E data)))"

definition fine :: "exn + pyval \<Rightarrow> bool" where
  "fine m = (case m of
      Inl e \<Rightarrow> message e \<noteq> ''unknown function called''
    | Inr v \<Rightarrow> \<not> is_failure v \<or> get_error v \<noteq> PStr ''unknown function called'')"

section \<open>The safe-call wrapper\<close>

lemma call_safe_run:
  "call (safe_run E func) args w =
     (case call func args w of
        (Inr v, w') \<Rightarrow> (Inr v, w')
      | (Inl e, w') \<Rightarrow>
          if is_Exception e
          then (Inr (error_data E (func_name func) e),
                print [PStr (''Error in '' @ func_name func @ '': '' @ message e)] w')
          else (Inl e, w'))"
  by (simp add: safe_run_def)

lemma func_name_safe_run: "func_name (safe_run E func) = ''wrapper''"
  by (simp add: safe_run_def)

lemma safe_run_raises_only_BaseException:
  "fst (call (safe_run E func) args w) = Inl e \<Longrightarrow>
     \<not> is_Exception e \<and> fst (call func args w) = Inl e"
  by (auto simp: call_safe_run split: prod.splits sum.splits if_splits)

text \<open>
  C1 (as amended). For every operation and every argument list: when the operation returns,
  the wrapped call returns the same value and leaves the same world; when it raises an
  exception of a class below \<^verbatim>\<open>Exception\<close>, the wrapped call returns the error object
  \<^verbatim>\<open>{success: False, error: str(e), function: func.__name__, trace: format_exc()}\<close> and
  prints the line \<^verbatim>\<open>Error in <name>: <message>\<close>; an exception that is not below
  \<^verbatim>\<open>Exception\<close> (\<^verbatim>\<open>KeyboardInterrupt\<close>, \<^verbatim>\<open>SystemExit\<close>, \<^verbatim>\<open>GeneratorExit\<close>) passes
  the wrapper, and nothing else is ever raised by the wrapped call.
\<close>

theorem safe_run_catches_Exception:
  "(call func args w = (Inr v, w') \<longrightarrow> call (safe_run E func) args w = (Inr v, w')) \<and>
   (call func args w = (Inl e, w') \<and> is_Exception e \<longrightarrow>
      call (safe_run E func) args w =
        (Inr (PDict [(''success'', PBool False), (''error'', PStr (message e)),
                     (''function'', PStr (func_name func)),
                     (''trace'', PStr (format_exc E (func_name func) e))]),
         print [PStr (''Error in '' @ func_name func @ '': '' @ message e)] w')) \<and>
   (call func args w = (Inl e, w') \<and> \<not> is_Exception e \<longrightarrow>
      call (safe_run E func) args w = (Inl e, w')) \<and>
   (\<forall>e'. fst (call (safe_run E func) args w) = Inl e' \<longrightarrow>
      \<not> is_Exception e' \<and> fst (call func args w) = Inl e')"
  by (auto simp: call_safe_run error_data_def split: prod.splits sum.splits if_splits)

theorem safe_run_catches_Exception_witness:
  "\<forall>E w.
     call (safe_run E returning) [PStr ''paris''] w = (Inr (PList [PStr ''paris'']), w) \<and>
     call (safe_run E (raising (Exn RuntimeError ''no route''))) [PStr ''paris''] w =
       (Inr (PDict [(''success'', PBool False), (''error'', PStr ''no route''),
                    (''function'', PStr ''op''),
                    (''trace'', PStr (format_exc E ''op'' (Exn RuntimeError ''no route'')))]),
        print [PStr ''Error in op: no route''] w) \<and>
     call (safe_run E (raising (Exn SystemExit ''1''))) [] w = (Inl (Exn SystemExit ''1''), w)"
proof (intro allI)
  fix E w
  show "call (safe_run E returning) [PStr ''paris''] w = (Inr (PList [PStr ''paris'']), w) \<and>
     call (safe_run E (raising (Exn RuntimeError ''no route''))) [PStr ''paris''] w =
       (Inr (PDict [(''success'', PBool False), (''error'', PStr ''no route''),
                    (''function'', PStr ''op''),
                    (''trace'', PStr (format_exc E ''op'' (Exn RuntimeError ''no route'')))]),
        print [PStr ''Error in op: no route''] w) \<and>
     call (safe_run E (raising (Exn SystemExit ''1''))) [] w = (Inl (Exn SystemExit ''1''), w)"
    using safe_run_catches_Exception
            [where func = returning and args = "[PStr ''paris'']" and w = w and w' = w
               and v = "PList [PStr ''paris'']" and E = E]
          safe_run_catches_Exception
            [where func = "raising (Exn RuntimeError ''no route'')" and args = "[PStr ''paris'']"
               and w = w and w' = w and e = "Exn RuntimeError ''no route''" and E = E]
          safe_run_catches_Exception
            [where func = "raising (Exn SystemExit ''1'')" and args = "[]"
               and w = w and w' = w and e = "Exn SystemExit ''1''" and E = E]
    by (simp add: returning_def raising_def is_Exception_def)
qed

text \<open>
  C1 as stated fails: an operation interrupted by Ctrl-C raises \<^verbatim>\<open>KeyboardInterrupt\<close>,
  and the wrapped call raises it too.
\<close>

theorem safe_run_KeyboardInterrupt_propagates:
  "\<forall>E w. call (safe_run E (raising (Exn KeyboardInterrupt []))) [] w
            = (Inl (Exn KeyboardInterrupt []), w)"
  by (simp add: call_safe_run raising_def is_Exception_def)

section \<open>The entry points of the tools\<close>

lemma call_method1d_one: "call (method1d E cls nm d body) [x] w = body x w"
  by (simp add: method1d_def)

lemma call_method1_one: "call (method1 E cls nm body) [x] w = body x w"
  by (simp add: method1_def)

lemma safe_run_Inr_cases:
  "call (safe_run E func) args w = (Inr v, w') \<Longrightarrow>
     call func args w = (Inr v, w') \<or>
     (\<exists>e w1. call func args w = (Inl e, w1) \<and> is_Exception e \<and> v = error_data E (func_name func) e)"
  by (auto simp: call_safe_run split: prod.splits sum.splits if_splits)

lemma safe_run_Inl:
  "call (safe_run E func) args w = (Inl e, w') \<Longrightarrow> \<not> is_Exception e"
  by (auto simp: call_safe_run split: prod.splits sum.splits if_splits)

lemma Weather_main_raises:
  "fst (Weather_main E loc w) = Inl e \<Longrightarrow> \<not> is_Exception e"
  unfolding Weather_main_def then_do_def
  by (auto split: prod.splits sum.splits if_splits dest: safe_run_Inl)

lemma Weather_main_returns:
  "fst (Weather_main E loc w) = Inr v \<Longrightarrow> \<exists>b d. v = output_json (PBool b) d"
  unfolding Weather_main_def then_do_def
  by (auto split: prod.splits sum.splits if_splits)


lemma News_main_raises:
  "fst (News_main E x w) = Inl e \<Longrightarrow> \<not> is_Exception e"
  unfolding News_main_def then_do_def
  by (auto split: prod.splits sum.splits if_splits dest: safe_run_Inl)

lemma News_main_returns:
  "fst (News_main E x w) = Inr v \<Longrightarrow> \<exists>b d. v = output_json (PBool b) d"
  unfolding News_main_def then_do_def
  by (auto split: prod.splits sum.splits if_splits)

lemma GoogleSearch_main_raises:
  "fst (GoogleSearch_main E x w) = Inl e \<Longrightarrow> \<not> is_Exception e"
  unfolding GoogleSearch_main_def then_do_def
  by (auto split: prod.splits sum.splits if_splits dest: safe_run_Inl)

lemma GoogleSearch_main_returns:
  "fst (GoogleSearch_main E x w) = Inr v \<Longrightarrow> \<exists>b d. v = output_json (PBool b) d"
  unfolding GoogleSearch_main_def then_do_def
  by (auto split: prod.splits sum.splits if_splits)

lemma safe_run_id:
  assumes "\<And>e. fst (call func args w) = Inl e \<Longrightarrow> \<not> is_Exception e"
  shows "call (safe_run E func) args w = call func args w"
  using assms by (auto simp: call_safe_run split: prod.splits sum.splits)

lemma wrapped_Weather_main: "call (safe_run E (Weather_main_m E)) [x] w = Weather_main E x w"
  by (rule trans[OF safe_run_id]) (auto simp: Weather_main_m_def call_method1d_one dest: Weather_main_raises)

lemma wrapped_News_main: "call (safe_run E (News_main_m E)) [x] w = News_main E x w"
  by (rule trans[OF safe_run_id]) (auto simp: News_main_m_def call_method1d_one dest: News_main_raises)

lemma wrapped_GoogleSearch_main:
  "call (safe_run E (GoogleSearch_main_m E)) [x] w = GoogleSearch_main E x w"
  by (rule trans[OF safe_run_id])
     (auto simp: GoogleSearch_main_m_def call_method1d_one dest: GoogleSearch_main_raises)

lemma Eve_TOOLS_call:
  "map_of (Eve_TOOLS E) s = Some f \<Longrightarrow>
     call f [x] w = Weather_main E x w \<or> call f [x] w = News_main E x w
       \<or> call f [x] w = GoogleSearch_main E x w"
  by (auto simp: Eve_TOOLS_def wrapped_Weather_main wrapped_News_main wrapped_GoogleSearch_main
           split: if_splits)

lemma Eve_TOOLS_result:
  assumes "map_of (Eve_TOOLS E) s = Some f" "call f [x] w = (Inr v, w')"
  shows "\<exists>b d. v = output_json (PBool b) d"
  using Eve_TOOLS_call[OF assms(1), of x w] assms(2)
        Weather_main_returns[of E x w v] News_main_returns[of E x w v]
        GoogleSearch_main_returns[of E x w v]
  by (metis fst_conv)

lemma map_of_in_keys: "s \<in> set (map fst T) \<Longrightarrow> \<exists>f. map_of T s = Some f"
  by (metis map_of_eq_None_iff not_Some_eq set_map)

section \<open>Dispatch\<close>

lemma Eve_call_module_cases:
  "Eve_call_module E TOOLS tool_dict u w =
     (case py_get tool_dict ''tool'' PNone of Inl e \<Rightarrow> (Inl e, w) | Inr tool_name \<Rightarrow>
      case py_get tool_dict ''input'' u of Inl e \<Rightarrow> (Inl e, w) | Inr input_value \<Rightarrow>
      case py_in tool_name TOOLS of Inl e \<Rightarrow> (Inl e, w)
      | Inr False \<Rightarrow> (Inr unknown_function, w)
      | Inr True \<Rightarrow> (case registry_getitem E TOOLS tool_name of Inl e \<Rightarrow> (Inl e, w)
                     | Inr f \<Rightarrow> call f [input_value] w))"
  by (auto simp: Eve_call_module_def then_do_def split: sum.splits bool.splits)

lemma py_in_True:
  "py_in tool_name TOOLS = Inr True \<Longrightarrow>
     \<exists>s f. tool_name = PStr s \<and> map_of TOOLS s = Some f \<and> registry_getitem E TOOLS tool_name = Inr f"
  by (auto simp: py_in_def registry_getitem_def map_of_eq_None_iff image_iff
           split: pyval.splits option.splits)

lemma Eve_call_module_registered:
  assumes "map_of d ''tool'' = Some (PStr s)" "map_of TOOLS s = Some f"
  shows "Eve_call_module E TOOLS (PDict d) u w
           = call f [case map_of d ''input'' of Some x \<Rightarrow> x | None \<Rightarrow> u] w"
proof -
  have "s \<in> set (map fst TOOLS)"
    using assms(2) by (metis map_of_eq_None_iff option.distinct(1) set_map)
  then show ?thesis
    using assms
    by (simp add: Eve_call_module_cases py_get_def py_in_def registry_getitem_def)
qed

lemma http_log_print [simp]: "http_log (print args w) = http_log w"
  by (simp add: print_def)

lemma http_log_Weather_fetch:
  "http_log (snd (Weather_fetch_weather E loc w)) = http_log w @ [Weather_url E loc]"
  by (auto simp: Weather_fetch_weather_def then_do_def http_get_def and_then_def
           split: sum.splits prod.splits)

lemma http_log_safe_run:
  "http_log (snd (call (safe_run E f) args w)) = http_log (snd (call f args w))"
  by (auto simp: call_safe_run split: sum.splits prod.splits)

lemma http_log_Weather_main:
  "http_log (snd (Weather_main E loc w)) = http_log w @ [Weather_url E loc]"
proof -
  obtain r w1 where f: "call (safe_run E (Weather_fetch_weather_m E)) [loc] w = (r, w1)"
    by (cases "call (safe_run E (Weather_fetch_weather_m E)) [loc] w")
  have l1: "http_log w1 = http_log w @ [Weather_url E loc]"
    using http_log_safe_run[of E "Weather_fetch_weather_m E" "[loc]" w] f
    by (simp add: Weather_fetch_weather_m_def call_method1_one http_log_Weather_fetch)
  have l2: "http_log w2 = http_log w1"
    if "call (safe_run E (Weather_format_data_m E)) [x] w1 = (r2, w2)" for x r2 w2
    using http_log_safe_run[of E "Weather_format_data_m E" "[x]" w1] that
    by (simp add: Weather_format_data_m_def call_method1_one)
  show ?thesis
    using l1 l2 f
    by (auto simp: Weather_main_def then_do_def split: sum.splits prod.splits)
qed


lemma Weather_url_with_str_fmt:
  "Weather_url (with_str_fmt E) (PStr s) = PStr
     (''http://api.weatherapi.com/v1/forecast.json?key=''
        @ fmt (with_str_fmt E) (getenv E ''WEATHER_API_KEY'') @ ''&q='' @ s @ ''&aqi=no'')"
  by (simp add: Weather_url_def with_str_fmt_def)

text \<open>
  C3 (as amended). For a request whose tool name is a registry key, dispatch invokes the
  registered tool with the value under \<^verbatim>\<open>input\<close> whenever the request has that key,
  whatever the value is, the empty string included; it invokes the tool with the fallback
  input only when the request has no \<^verbatim>\<open>input\<close> key.
\<close>

theorem dispatch_input_present_or_absent:
  "map_of d ''tool'' = Some (PStr s) \<and> map_of TOOLS s = Some f \<longrightarrow>
     (\<forall>x. map_of d ''input'' = Some x \<longrightarrow>
        Eve_call_module E TOOLS (PDict d) u w = call f [x] w) \<and>
     (map_of d ''input'' = None \<longrightarrow>
        Eve_call_module E TOOLS (PDict d) u w = call f [u] w)"
  by (simp add: Eve_call_module_registered)

theorem dispatch_input_present_or_absent_witness:
  "\<forall>E w.
     Eve_call_module E (Eve_TOOLS E)
         (PDict [(''tool'', PStr ''get_weather''), (''input'', PStr ''delhi'')]) (PStr ''paris'') w
       = call (safe_run E (Weather_main_m E)) [PStr ''delhi''] w \<and>
     Eve_call_module E (Eve_TOOLS E)
         (PDict [(''tool'', PStr ''get_weather''), (''input'', PStr [])]) (PStr ''paris'') w
       = call (safe_run E (Weather_main_m E)) [PStr []] w \<and>
     Eve_call_module E (Eve_TOOLS E)
         (PDict [(''tool'', PStr ''get_weather'')]) (PStr ''paris'') w
       = call (safe_run E (Weather_main_m E)) [PStr ''paris''] w"
proof (intro allI)
  fix E w
  show "Eve_call_module E (Eve_TOOLS E)
         (PDict [(''tool'', PStr ''get_weather''), (''input'', PStr ''delhi'')]) (PStr ''paris'') w
       = call (safe_run E (Weather_main_m E)) [PStr ''delhi''] w \<and>
     Eve_call_module E (Eve_TOOLS E)
         (PDict [(''tool'', PStr ''get_weather''), (''input'', PStr [])]) (PStr ''paris'') w
       = call (safe_run E (Weather_main_m E)) [PStr []] w \<and>
     Eve_call_module E (Eve_TOOLS E)
         (PDict [(''tool'', PStr ''get_weather'')]) (PStr ''paris'') w
       = call (safe_run E (Weather_main_m E)) [PStr ''paris''] w"
    using dispatch_input_present_or_absent
            [where d = "[(''tool'', PStr ''get_weather''), (''input'', PStr ''delhi'')]"
               and s = "''get_weather''" and TOOLS = "Eve_TOOLS E"
               and f = "safe_run E (Weather_main_m E)" and E = E and u = "PStr ''paris''" and w = w]
          dispatch_input_present_or_absent
            [where d = "[(''tool'', PStr ''get_weather''), (''input'', PStr [])]"
               and s = "''get_weather''" and TOOLS = "Eve_TOOLS E"
               and f = "safe_run E (Weather_main_m E)" and E = E and u = "PStr ''paris''" and w = w]
          dispatch_input_present_or_absent
            [where d = "[(''tool'', PStr ''get_weather'')]"
               and s = "''get_weather''" and TOOLS = "Eve_TOOLS E"
               and f = "safe_run E (Weather_main_m E)" and E = E and u = "PStr ''paris''" and w = w]
    by (simp add: Eve_TOOLS_def)
qed

text \<open>
  C3 as stated fails: for \<^verbatim>\<open>{"tool":"get_weather","input":""}\<close> with fallback
  \<^verbatim>\<open>"paris"\<close> the weather tool is called with the empty string. The request it sends
  has \<^verbatim>\<open>q=\<close>, where a call with the fallback would have sent \<^verbatim>\<open>q=paris\<close>.
\<close>

theorem dispatch_empty_input_not_fallback:
  "\<forall>E w.
     Eve_call_module (with_str_fmt E) (Eve_TOOLS (with_str_fmt E))
         (PDict [(''tool'', PStr ''get_weather''), (''input'', PStr [])]) (PStr ''paris'') w
       = call (safe_run (with_str_fmt E) (Weather_main_m (with_str_fmt E))) [PStr []] w \<and>
     http_log (snd (Eve_call_module (with_str_fmt E) (Eve_TOOLS (with_str_fmt E))
         (PDict [(''tool'', PStr ''get_weather''), (''input'', PStr [])]) (PStr ''paris'') w))
       = http_log w @ [PStr (''http://api.weatherapi.com/v1/forecast.json?key=''
           @ fmt (with_str_fmt E) (getenv E ''WEATHER_API_KEY'') @ ''&q=&aqi=no'')] \<and>
     http_log (snd (call (safe_run (with_str_fmt E) (Weather_main_m (with_str_fmt E)))
         [PStr ''paris''] w))
       = http_log w @ [PStr (''http://api.weatherapi.com/v1/forecast.json?key=''
           @ fmt (with_str_fmt E) (getenv E ''WEATHER_API_KEY'') @ ''&q=paris&aqi=no'')] \<and>
     Eve_call_module (with_str_fmt E) (Eve_TOOLS (with_str_fmt E))
         (PDict [(''tool'', PStr ''get_weather''), (''input'', PStr [])]) (PStr ''paris'') w
       \<noteq> call (safe_run (with_str_fmt E) (Weather_main_m (with_str_fmt E))) [PStr ''paris''] w"
proof (intro allI)
  fix E w
  let ?E = "with_str_fmt E"
  let ?d = "PDict [(''tool'', PStr ''get_weather''), (''input'', PStr [])]"
  have 1: "Eve_call_module ?E (Eve_TOOLS ?E) ?d (PStr ''paris'') w
             = call (safe_run ?E (Weather_main_m ?E)) [PStr []] w"
    by (simp add: Eve_call_module_registered Eve_TOOLS_def)
  have 2: "http_log (snd (call (safe_run ?E (Weather_main_m ?E)) [PStr s] w))
             = http_log w @ [PStr (''http://api.weatherapi.com/v1/forecast.json?key=''
                 @ fmt ?E (getenv E ''WEATHER_API_KEY'') @ ''&q='' @ s @ ''&aqi=no'')]" for s
    by (simp add: wrapped_Weather_main http_log_Weather_main Weather_url_with_str_fmt)
  have 3: "call (safe_run ?E (Weather_main_m ?E)) [PStr []] w
             \<noteq> call (safe_run ?E (Weather_main_m ?E)) [PStr ''paris''] w"
  proof
    assume "call (safe_run ?E (Weather_main_m ?E)) [PStr []] w
              = call (safe_run ?E (Weather_main_m ?E)) [PStr ''paris''] w"
    then have "http_log (snd (call (safe_run ?E (Weather_main_m ?E)) [PStr []] w))
              = http_log (snd (call (safe_run ?E (Weather_main_m ?E)) [PStr ''paris''] w))"
      by simp
    then show False by (simp add: 2)
  qed
  show "Eve_call_module ?E (Eve_TOOLS ?E) ?d (PStr ''paris'') w
       = call (safe_run ?E (Weather_main_m ?E)) [PStr []] w \<and>
     http_log (snd (Eve_call_module ?E (Eve_TOOLS ?E) ?d (PStr ''paris'') w))
       = http_log w @ [PStr (''http://api.weatherapi.com/v1/forecast.json?key=''
           @ fmt ?E (getenv E ''WEATHER_API_KEY'') @ ''&q=&aqi=no'')] \<and>
     http_log (snd (call (safe_run ?E (Weather_main_m ?E)) [PStr ''paris''] w))
       = http_log w @ [PStr (''http://api.weatherapi.com/v1/forecast.json?key=''
           @ fmt ?E (getenv E ''WEATHER_API_KEY'') @ ''&q=paris&aqi=no'')] \<and>
     Eve_call_module ?E (Eve_TOOLS ?E) ?d (PStr ''paris'') w
       \<noteq> call (safe_run ?E (Weather_main_m ?E)) [PStr ''paris''] w"
    using 1 2[of "[]"] 2[of "''paris''"] 3 by simp
qed


text \<open>
  C4. Whatever the request, the fallback input and the world: when dispatch through the
  registry of the assistant returns a value, on the path of a successful tool call, of a
  failed one and of an unknown tool name alike, the value is a dictionary with a boolean
  under \<^verbatim>\<open>success\<close>. The same holds for the wrapped \<^verbatim>\<open>self._call_module\<close>, which also
  returns the error object of \<^verbatim>\<open>safe_run\<close>.
\<close>

theorem dispatch_success_field:
  "(Eve_call_module E (Eve_TOOLS E) tool_dict u w = (Inr v, w') \<longrightarrow> has_bool_success v) \<and>
   (call (safe_run E (Eve_call_module_m E (Eve_TOOLS E))) [tool_dict, u] w = (Inr v, w')
      \<longrightarrow> has_bool_success v)"
proof -
  have raw: "has_bool_success v" if "Eve_call_module E (Eve_TOOLS E) tool_dict u w = (Inr v, w')" for v w'
  proof -
    from that show ?thesis
      apply (simp add: Eve_call_module_cases split: sum.splits bool.splits)
       apply (auto simp: has_bool_success_def unknown_function_def output_json_def
                   dest!: py_in_True[where E = E] dest: Eve_TOOLS_result)
      done
  qed
  have m: "call (Eve_call_module_m E (Eve_TOOLS E)) [tool_dict, u] w
             = Eve_call_module E (Eve_TOOLS E) tool_dict u w"
    by (simp add: Eve_call_module_m_def method2d_def)
  show ?thesis
    using raw by (auto simp: m has_bool_success_def error_data_def dest!: safe_run_Inr_cases)
qed



lemmas method_calls = method1_def method1d_def method2d_def method3d_def method0_def

lemma News_refused:
  "News_main (without_network E) topic w =
     (Inr (output_json (PBool False) (PStr ''Connection refused'')),
      print [PStr ''Error in _fetch_news: Connection refused'']
        (w\<lparr>http_log := http_log w @ [News_url (without_network E) topic w]\<rparr>))"
  by (simp add: News_main_def then_do_def call_safe_run News_fetch_news_m_def method_calls
        News_fetch_news_def http_get_def without_network_def refused_def is_Exception_def
        error_data_def is_failure_def get_error_def)

lemma News_no_articles:
  "News_main (with_response no_articles E) topic w =
     (Inr (output_json (PBool True) (PStr [])),
        (w\<lparr>http_log := http_log w @ [News_url (with_response no_articles E) topic w]\<rparr>))"
  by (simp add: News_main_def then_do_def and_then_def call_safe_run News_fetch_news_m_def method_calls
        News_fetch_news_def http_get_def with_response_def no_articles_def is_Exception_def
        error_data_def is_failure_def get_error_def News_filter_data_m_def News_filter_data_def
        getitem_def slice_to_def py_iter_def py_join_def the_strs_def)

theorem dispatch_success_field_witness:
  "\<forall>E w.
     fst (Eve_call_module E (Eve_TOOLS E) (PDict [(''tool'', PStr ''bogus'')]) (PStr ''x'') w)
       = Inr (PDict [(''success'', PBool False), (''data'', PStr ''unknown function called'')]) \<and>
     fst (Eve_call_module (without_network E) (Eve_TOOLS (without_network E))
            (PDict [(''tool'', PStr ''get_news'')]) (PStr ''terrorist'') w)
       = Inr (PDict [(''success'', PBool False), (''data'', PStr ''Connection refused'')]) \<and>
     fst (Eve_call_module (with_response no_articles E) (Eve_TOOLS (with_response no_articles E))
            (PDict [(''tool'', PStr ''get_news'')]) (PStr ''terrorist'') w)
       = Inr (PDict [(''success'', PBool True), (''data'', PStr [])]) \<and>
     has_bool_success (PDict [(''success'', PBool False), (''data'', PStr ''unknown function called'')]) \<and>
     has_bool_success (PDict [(''success'', PBool False), (''data'', PStr ''Connection refused'')]) \<and>
     has_bool_success (PDict [(''success'', PBool True), (''data'', PStr [])])"
proof (intro allI)
  fix E w
  let ?N = "without_network E" and ?R = "with_response no_articles E"
  let ?req = "PDict [(''tool'', PStr ''get_news'')]"
  have 1: "Eve_call_module E (Eve_TOOLS E) (PDict [(''tool'', PStr ''bogus'')]) (PStr ''x'') w
             = (Inr (PDict [(''success'', PBool False), (''data'', PStr ''unknown function called'')]), w)"
    by (simp add: Eve_call_module_cases py_get_def py_in_def Eve_TOOLS_def unknown_function_def)
  have 2: "Eve_call_module ?N (Eve_TOOLS ?N) ?req (PStr ''terrorist'') w
             = (Inr (PDict [(''success'', PBool False), (''data'', PStr ''Connection refused'')]),
                snd (News_main ?N (PStr ''terrorist'') w))"
    by (simp add: Eve_call_module_registered Eve_TOOLS_def wrapped_News_main News_refused
          output_json_def)
  have 3: "Eve_call_module ?R (Eve_TOOLS ?R) ?req (PStr ''terrorist'') w
             = (Inr (PDict [(''success'', PBool True), (''data'', PStr [])]),
                snd (News_main ?R (PStr ''terrorist'') w))"
    by (simp add: Eve_call_module_registered Eve_TOOLS_def wrapped_News_main News_no_articles
          output_json_def)
  show "fst (Eve_call_module E (Eve_TOOLS E) (PDict [(''tool'', PStr ''bogus'')]) (PStr ''x'') w)
       = Inr (PDict [(''success'', PBool False), (''data'', PStr ''unknown function called'')]) \<and>
     fst (Eve_call_module ?N (Eve_TOOLS ?N) ?req (PStr ''terrorist'') w)
       = Inr (PDict [(''success'', PBool False), (''data'', PStr ''Connection refused'')]) \<and>
     fst (Eve_call_module ?R (Eve_TOOLS ?R) ?req (PStr ''terrorist'') w)
       = Inr (PDict [(''success'', PBool True), (''data'', PStr [])]) \<and>
     has_bool_success (PDict [(''success'', PBool False), (''data'', PStr ''unknown function called'')]) \<and>
     has_bool_success (PDict [(''success'', PBool False), (''data'', PStr ''Connection refused'')]) \<and>
     has_bool_success (PDict [(''success'', PBool True), (''data'', PStr [])])"
    using dispatch_success_field[THEN conjunct1, rule_format, OF 1]
          dispatch_success_field[THEN conjunct1, rule_format, OF 2]
          dispatch_success_field[THEN conjunct1, rule_format, OF 3]
    by (simp add: 1 2 3)
qed



section \<open>Failures inside the tools\<close>

lemma below_Inr [simp]: "below_Exception (Inr x)"
  by (simp add: below_Exception_def)

lemma below_Inl [simp]: "below_Exception (Inl e) = is_Exception e"
  by (simp add: below_Exception_def)

lemma below_and_then:
  "below_Exception m \<Longrightarrow> (\<And>x. below_Exception (f x)) \<Longrightarrow> below_Exception (and_then m f)"
  by (cases m) (simp_all add: and_then_def)

lemma below_getitem: "below_Exception (getitem v k)"
  by (cases v) (auto simp: getitem_def is_Exception_def not_subscriptable_def split: option.splits)

lemma below_getitem0: "below_Exception (getitem0 v)"
  by (cases v) (auto simp: getitem0_def is_Exception_def not_subscriptable_def split: list.splits)

lemma below_py_get: "below_Exception (py_get v k d)"
  by (cases v) (auto simp: py_get_def is_Exception_def no_attribute_def)



lemma Weather_main_fetch_raises:
  assumes "Weather_fetch_weather E loc w = (Inl e, w1)" "is_Exception e"
  shows "Weather_main E loc w =
           (Inr (output_json (PBool False) (PStr (quoted ''location''))),
            print [PStr (''Error in _format_data: '' @ quoted ''location'')]
              (print [PStr (''Error in _fetch_weather: '' @ message e)] w1))"
  using assms
  by (simp add: Weather_main_def then_do_def call_safe_run Weather_fetch_weather_m_def
        Weather_format_data_m_def method_calls Weather_format_data_def getitem_def and_then_def
        error_data_def is_failure_def get_error_def is_Exception_def)


lemma Weather_fetch_network_error:
  "requests_get E (Weather_url E loc) w = Inl e \<Longrightarrow>
     Weather_fetch_weather E loc w = (Inl e, w\<lparr>http_log := http_log w @ [Weather_url E loc]\<rparr>)"
  by (simp add: Weather_fetch_weather_def then_do_def http_get_def)








lemma below_News_news_format: "below_Exception (News_news_format E news)"
  unfolding News_news_format_def
  by (intro below_and_then below_getitem below_Inr)

lemma wrapped_news_format_returns:
  "\<exists>v w'. call (safe_run E (News_news_format_m E)) [x] w = (Inr v, w')"
  using below_News_news_format[of E x]
  by (cases "News_news_format E x")
     (simp_all add: call_safe_run News_news_format_m_def method_calls)

lemma map_call_news_format_returns:
  "\<exists>vs w'. map_call (safe_run E (News_news_format_m E)) items w = (Inr vs, w')"
proof (induction items arbitrary: w)
  case Nil
  then show ?case by simp
next
  case (Cons x items)
  obtain v w1 where 1: "call (safe_run E (News_news_format_m E)) [x] w = (Inr v, w1)"
    using wrapped_news_format_returns by blast
  obtain vs w2 where 2: "map_call (safe_run E (News_news_format_m E)) items w1 = (Inr vs, w2)"
    using Cons.IH by blast
  show ?case by (simp add: 1 2)
qed


lemma News_main_fetch_raises:
  assumes "News_fetch_news E topic w = (Inl e, w1)" "is_Exception e"
  shows "News_main E topic w =
           (Inr (output_json (PBool False) (PStr (message e))),
            print [PStr (''Error in _fetch_news: '' @ message e)] w1)"
  using assms
  by (simp add: News_main_def then_do_def call_safe_run News_fetch_news_m_def method_calls
        error_data_def is_failure_def get_error_def)


lemma News_fetch_network_error:
  "requests_get E (News_url E topic w) w = Inl e \<Longrightarrow>
     News_fetch_news E topic w
       = (Inl e, w\<lparr>http_log := http_log w @ [News_url E topic w]\<rparr>)"
  by (simp add: News_fetch_news_def then_do_def http_get_def)

lemma py_get_raises: "py_get v k d = Inl e \<Longrightarrow> is_Exception e"
  using below_py_get[of v k d] by simp






lemma below_GoogleSearch_first_url:
  "below_Exception (json r) \<Longrightarrow> below_Exception (GoogleSearch_first_url r)"
  unfolding GoogleSearch_first_url_def
  by (intro below_and_then below_getitem below_getitem0)

lemma GoogleSearch_main_search_raises:
  assumes "GoogleSearch_do_google_search E topic w = (Inl e, w1)" "is_Exception e"
  shows "GoogleSearch_main E topic w =
           (Inr (output_json (PBool False) (PStr (message e))),
            print [PStr (''Error in _do_google_search: '' @ message e)] w1)"
  using assms
  by (simp add: GoogleSearch_main_def then_do_def call_safe_run GoogleSearch_do_google_search_m_def
        method_calls error_data_def is_failure_def get_error_def)


lemma GoogleSearch_search_network_error:
  "requests_get E (GoogleSearch_url E topic) w = Inl e \<Longrightarrow>
     GoogleSearch_do_google_search E topic w
       = (Inl e, w\<lparr>http_log := http_log w @ [GoogleSearch_url E topic]\<rparr>)"
  by (simp add: GoogleSearch_do_google_search_def then_do_def http_get_def)







lemma is_failure_error_data [simp]: "is_failure (error_data E f e)"
  by (simp add: is_failure_def error_data_def)

lemma get_error_error_data [simp]: "get_error (error_data E f e) = PStr (message e)"
  by (simp add: get_error_def error_data_def)



section \<open>Registry closure\<close>

lemma other_Inr [simp]: "other_text (Inr x)"
  by (simp add: other_text_def)

lemma other_Inl [simp]: "other_text (Inl e) = (message e \<noteq> ''unknown function called'')"
  by (simp add: other_text_def)

lemma fine_Inl [simp]: "fine (Inl e) = (message e \<noteq> ''unknown function called'')"
  by (simp add: fine_def)

lemma fine_PStr [simp]: "fine (Inr (PStr s))"
  by (simp add: fine_def is_failure_def)

lemma other_and_then:
  "other_text m \<Longrightarrow> (\<And>x. other_text (f x)) \<Longrightarrow> other_text (and_then m f)"
  by (cases m) (simp_all add: and_then_def)

lemma fine_and_then:
  "other_text m \<Longrightarrow> (\<And>x. fine (f x)) \<Longrightarrow> fine (and_then m f)"
  by (cases m) (simp_all add: and_then_def)

lemma other_getitem: "other_text (getitem v k)"
  by (cases v) (auto simp: getitem_def not_subscriptable_def quoted_def split: option.splits)

lemma other_getitem0: "other_text (getitem0 v)"
  by (cases v) (auto simp: getitem0_def not_subscriptable_def quoted_def split: list.splits)

lemma other_py_get: "other_text (py_get v k d)"
  by (cases v) (auto simp: py_get_def no_attribute_def quoted_def)

lemma other_py_lower: "other_text (py_lower E v)"
  by (cases v) (auto simp: py_lower_def no_attribute_def quoted_def)

lemma other_slice_to: "other_text (slice_to n v)"
  by (cases v) (auto simp: slice_to_def not_subscriptable_def quoted_def)

lemma other_py_iter: "other_text (py_iter v)"
  by (cases v) (auto simp: py_iter_def quoted_def)

lemma fine_py_join: "fine (py_join E sep items)"
  by (auto simp: py_join_def split: option.splits)

lemma fine_Weather_format_data: "fine (Weather_format_data E j)"
  unfolding Weather_format_data_def
  by (intro fine_and_then other_and_then other_getitem other_getitem0 other_py_get
        other_py_lower fine_PStr)

lemma fine_safe_run:
  "fine (fst (call f args w)) \<Longrightarrow> fine (fst (call (safe_run E f) args w))"
  by (auto simp: call_safe_run fine_def split: prod.splits sum.splits)

lemma main_tail_not_unknown:
  assumes "fine (fst r)"
  shows "fst (then_do r (\<lambda>data w1.
           if is_failure data then (Inr (output_json (PBool False) (get_error data)), w1)
           else (Inr (output_json (PBool True) data), w1))) \<noteq> Inr unknown_function"
  using assms
  by (cases r) (auto simp: then_do_def fine_def unknown_function_def output_json_def
                     split: sum.splits)

lemma Weather_main_not_unknown: "fst (Weather_main E x w) \<noteq> Inr unknown_function"
proof (cases "call (safe_run E (Weather_fetch_weather_m E)) [x] w")
  case (Pair r w1)
  show ?thesis
  proof (cases r)
    case (Inl e)
    with Pair show ?thesis by (simp add: Weather_main_def then_do_def)
  next
    case (Inr fetched)
    have "fine (fst (call (safe_run E (Weather_format_data_m E)) [fetched] w1))"
      by (rule fine_safe_run)
         (simp add: Weather_format_data_m_def call_method1_one fine_Weather_format_data)
    from main_tail_not_unknown[OF this] Pair Inr show ?thesis
      by (simp add: Weather_main_def then_do_def)
  qed
qed

lemma fine_News_filter_data: "fine (fst (News_filter_data E data w))"
proof -
  define m where "m = and_then (and_then (getitem data ''articles'') (slice_to 10)) py_iter"
  have om: "other_text m"
    unfolding m_def by (intro other_and_then other_getitem other_slice_to other_py_iter)
  show ?thesis
  proof (cases m)
    case (Inl e)
    then show ?thesis
      using om by (simp add: News_filter_data_def then_do_def m_def[symmetric])
  next
    case (Inr items)
    obtain vs w' where "map_call (safe_run E (News_news_format_m E)) items w = (Inr vs, w')"
      using map_call_news_format_returns by blast
    then show ?thesis
      using Inr by (simp add: News_filter_data_def then_do_def m_def[symmetric] fine_py_join)
  qed
qed

lemma other_News_error_message:
  "other_text (json r) \<Longrightarrow> other_text (content_decoded r) \<Longrightarrow>
     other_text (News_error_message r)"
  by (auto simp: News_error_message_def and_then_def other_text_def split: sum.splits
           dest: py_get_raises)

lemma fine_News_fetch_news:
  assumes "library_texts_differ E"
  shows "fine (fst (News_fetch_news E x w))"
proof (cases "requests_get E (News_url E x w) w")
  case (Inl e)
  then show ?thesis
    using assms[unfolded library_texts_differ_def, THEN conjunct1, rule_format, of "News_url E x w" w]
    by (simp add: News_fetch_news_def then_do_def http_get_def)
next
  case (Inr r)
  have j: "other_text (json r)" and c: "other_text (content_decoded r)"
    using assms Inr unfolding library_texts_differ_def by blast+
  show ?thesis
  proof (cases "status_code r = 200")
    case True
    show ?thesis
    proof (cases "json r")
      case (Inl e)
      with j Inr True show ?thesis
        by (simp add: News_fetch_news_def then_do_def http_get_def)
    next
      case (Inr parsed)
      have "fine (fst (call (safe_run E (News_filter_data_m E)) [parsed] w'))" for w'
        by (rule fine_safe_run)
           (simp add: News_filter_data_m_def call_method1_one fine_News_filter_data)
      with Inr \<open>requests_get E (News_url E x w) w = Inr r\<close> True show ?thesis
        by (simp add: News_fetch_news_def then_do_def http_get_def)
    qed
  next
    case False
    have "fine (and_then (News_error_message r) (\<lambda>error_message.
               Inl (Exn RuntimeError
                 (''News API Error:'' @ [CHR 0x0A]
                    @ ''Topic: '' @ quoted (fmt E x) @ [CHR 0x0A]
                    @ ''Status Code: '' @ fmt E (PInt (status_code r)) @ [CHR 0x0A]
                    @ ''Message: '' @ fmt E error_message))))"
      by (intro fine_and_then other_News_error_message j c) simp
    with Inr False show ?thesis
      by (simp add: News_fetch_news_def then_do_def http_get_def)
  qed
qed

lemma News_main_not_unknown:
  assumes "library_texts_differ E"
  shows "fst (News_main E x w) \<noteq> Inr unknown_function"
proof -
  have "fine (fst (call (safe_run E (News_fetch_news_m E)) [x] w))"
    by (rule fine_safe_run)
       (simp add: News_fetch_news_m_def call_method1_one fine_News_fetch_news[OF assms])
  from main_tail_not_unknown[OF this] show ?thesis
    by (simp add: News_main_def)
qed

lemma fine_scrape_webpage:
  assumes "library_texts_differ E"
  shows "fine (GoogleSearch_scrape_webpage E data)"
  using assms[unfolded library_texts_differ_def, THEN conjunct2, THEN conjunct2, rule_format, of data]
  by (auto simp: GoogleSearch_scrape_webpage_def and_then_def other_text_def no_attribute_def
        quoted_def split: sum.splits option.splits)

lemma fine_get_webpage:
  assumes "library_texts_differ E"
  shows "fine (fst (GoogleSearch_get_webpage E link w))"
proof (cases "requests_get E link w")
  case (Inl e)
  then show ?thesis
    using assms[unfolded library_texts_differ_def, THEN conjunct1, rule_format, of link w]
    by (simp add: GoogleSearch_get_webpage_def then_do_def http_get_def)
next
  case (Inr r)
  have c: "other_text (content_decoded r)"
    using assms Inr unfolding library_texts_differ_def by blast
  show ?thesis
  proof (cases "content_decoded r")
    case (Inl e)
    with c Inr show ?thesis
      by (simp add: GoogleSearch_get_webpage_def then_do_def http_get_def)
  next
    case (Inr page)
    have "fine (fst (call (safe_run E (GoogleSearch_scrape_webpage_m E)) [PStr page] w'))" for w'
      by (rule fine_safe_run)
         (simp add: GoogleSearch_scrape_webpage_m_def call_method1_one fine_scrape_webpage[OF assms])
    with Inr \<open>requests_get E link w = Inr r\<close> show ?thesis
      by (simp add: GoogleSearch_get_webpage_def then_do_def http_get_def)
  qed
qed

lemma other_first_url: "other_text (json r) \<Longrightarrow> other_text (GoogleSearch_first_url r)"
  unfolding GoogleSearch_first_url_def
  by (intro other_and_then other_getitem other_getitem0)

lemma fine_do_google_search:
  assumes "library_texts_differ E"
  shows "fine (fst (GoogleSearch_do_google_search E x w))"
proof (cases "requests_get E (GoogleSearch_url E x) w")
  case (Inl e)
  then show ?thesis
    using assms[unfolded library_texts_differ_def, THEN conjunct1, rule_format,
                of "GoogleSearch_url E x" w]
    by (simp add: GoogleSearch_do_google_search_def then_do_def http_get_def)
next
  case (Inr r)
  have j: "other_text (json r)" and c: "other_text (content_decoded r)"
    using assms Inr unfolding library_texts_differ_def by blast+
  show ?thesis
  proof (cases "status_code r = 200")
    case True
    show ?thesis
    proof (cases "GoogleSearch_first_url r")
      case (Inl e)
      with other_first_url[OF j] Inr True show ?thesis
        by (simp add: GoogleSearch_do_google_search_def then_do_def http_get_def)
    next
      case (Inr link)
      have "fine (fst (call (safe_run E (GoogleSearch_get_webpage_m E)) [link] w'))" for w'
        by (rule fine_safe_run)
           (simp add: GoogleSearch_get_webpage_m_def call_method1_one fine_get_webpage[OF assms])
      with Inr \<open>requests_get E (GoogleSearch_url E x) w = Inr r\<close> True show ?thesis
        by (simp add: GoogleSearch_do_google_search_def then_do_def http_get_def)
    qed
  next
    case False
    have "fine (and_then (content_decoded r) (\<lambda>text.
               Inl (Exn RuntimeError
                 (''Error in Google search with status code : ''
                    @ fmt E (PInt (status_code r)) @ '' Message : '' @ text))))"
      by (intro fine_and_then c) simp
    with Inr False show ?thesis
      by (simp add: GoogleSearch_do_google_search_def then_do_def http_get_def)
  qed
qed

lemma GoogleSearch_main_not_unknown:
  assumes "library_texts_differ E"
  shows "fst (GoogleSearch_main E x w) \<noteq> Inr unknown_function"
proof -
  have "fine (fst (call (safe_run E (GoogleSearch_do_google_search_m E)) [x] w))"
    by (rule fine_safe_run)
       (simp add: GoogleSearch_do_google_search_m_def call_method1_one
          fine_do_google_search[OF assms])
  from main_tail_not_unknown[OF this] show ?thesis
    by (simp add: GoogleSearch_main_def)
qed

lemma Eve_TOOLS_not_unknown:
  assumes "library_texts_differ E" "map_of (Eve_TOOLS E) s = Some f"
  shows "fst (call f [x] w) \<noteq> Inr unknown_function"
  using Eve_TOOLS_call[OF assms(2), of x w] Weather_main_not_unknown[of E x w]
        News_main_not_unknown[OF assms(1), of x w] GoogleSearch_main_not_unknown[OF assms(1), of x w]
  by auto

lemma library_texts_differ_unreachable: "library_texts_differ (unreachable E)"
  by (simp add: library_texts_differ_def unreachable_def without_network_def refused_def)

lemma Eve_call_module_hashable_not_key:
  assumes "py_get tool_dict ''tool'' PNone = Inr tool_name"
    "py_get tool_dict ''input'' u = Inr input_value"
    "\<forall>s. tool_name = PStr s \<longrightarrow> map_of TOOLS s = None"
    "\<forall>xs. tool_name \<noteq> PList xs" "\<forall>d. tool_name \<noteq> PDict d"
  shows "Eve_call_module E TOOLS tool_dict u w = (Inr unknown_function, w)"
proof -
  have "py_in tool_name TOOLS = Inr False"
    using assms(3-5)
    by (cases tool_name) (auto simp: py_in_def map_of_eq_None_iff image_iff)
  then show ?thesis
    using assms(1,2) by (simp add: Eve_call_module_cases)
qed

lemma Eve_call_module_key:
  assumes "py_get tool_dict ''tool'' PNone = Inr (PStr s)"
    "py_get tool_dict ''input'' u = Inr input_value"
    "map_of TOOLS s = Some f"
  shows "Eve_call_module E TOOLS tool_dict u w = call f [input_value] w"
proof -
  have "s \<in> set (map fst TOOLS)"
    using assms(3) by (metis map_of_eq_None_iff option.distinct(1) set_map)
  then show ?thesis
    using assms
    by (simp add: Eve_call_module_cases py_in_def registry_getitem_def)
qed

lemma Eve_call_module_unhashable:
  assumes "py_get tool_dict ''tool'' PNone = Inr tool_name"
    "py_get tool_dict ''input'' u = Inr input_value"
    "py_in tool_name TOOLS = Inl e" "is_Exception e"
  shows "Eve_call_module E TOOLS tool_dict u w = (Inl e, w) \<and>
         call (safe_run E (Eve_call_module_m E TOOLS)) [tool_dict, u] w =
           (Inr (PDict [(''success'', PBool False), (''error'', PStr (message e)),
                        (''function'', PStr ''_call_module''),
                        (''trace'', PStr (format_exc E ''_call_module'' e))]),
            print [PStr (''Error in _call_module: '' @ message e)] w)"
  using assms
  by (simp add: Eve_call_module_cases call_safe_run Eve_call_module_m_def method2d_def
        error_data_def)

text \<open>
  C2 (as amended). Let the request's tool name be what \<^verbatim>\<open>tool_dict.get('tool')\<close> gives and
  its input what \<^verbatim>\<open>tool_dict.get('input', user_input)\<close> gives. A name that is not a key of
  the registry, and is neither a list nor a dictionary, makes dispatch return
  \<^verbatim>\<open>{success: False, data: "unknown function called"}\<close> with the world as before: no
  tool has been invoked. A name that is a key makes the outcome of dispatch the outcome of
  calling exactly the tool registered under it with the input, unchanged. A name that is a
  list or a dictionary makes dispatch raise \<^verbatim>\<open>TypeError\<close> (unhashable type), and the
  wrapped \<^verbatim>\<open>self._call_module\<close> print the error and return the error object of
  \<^verbatim>\<open>safe_run\<close> for it. With the registry that \<^verbatim>\<open>Eve.__init__\<close> builds, and libraries
  none of whose exceptions has the text \<^verbatim>\<open>unknown function called\<close>, dispatch of a name
  that is neither a list nor a dictionary returns the unknown-function envelope if and only
  if the name is not a key of the registry: no registered tool answers with that envelope.
\<close>

theorem dispatch_by_registry_key:
  "py_get tool_dict ''tool'' PNone = Inr tool_name \<and> py_get tool_dict ''input'' u = Inr input_value
   \<longrightarrow>
     ((\<forall>s. tool_name = PStr s \<longrightarrow> map_of TOOLS s = None) \<and>
      (\<forall>xs. tool_name \<noteq> PList xs) \<and> (\<forall>d. tool_name \<noteq> PDict d) \<longrightarrow>
        Eve_call_module E TOOLS tool_dict u w = (Inr unknown_function, w)) \<and>
     (\<forall>s f. tool_name = PStr s \<and> map_of TOOLS s = Some f \<longrightarrow>
        Eve_call_module E TOOLS tool_dict u w = call f [input_value] w) \<and>
     (\<forall>xs. tool_name = PList xs \<longrightarrow>
        Eve_call_module E TOOLS tool_dict u w
          = (Inl (Exn TypeError (''unhashable type: '' @ quoted ''list'')), w) \<and>
        call (safe_run E (Eve_call_module_m E TOOLS)) [tool_dict, u] w =
          (Inr (PDict [(''success'', PBool False),
                       (''error'', PStr (''unhashable type: '' @ quoted ''list'')),
                       (''function'', PStr ''_call_module''),
                       (''trace'', PStr (format_exc E ''_call_module''
                          (Exn TypeError (''unhashable type: '' @ quoted ''list''))))]),
           print [PStr (''Error in _call_module: unhashable type: '' @ quoted ''list'')] w)) \<and>
     (\<forall>d. tool_name = PDict d \<longrightarrow>
        Eve_call_module E TOOLS tool_dict u w
          = (Inl (Exn TypeError (''unhashable type: '' @ quoted ''dict'')), w) \<and>
        call (safe_run E (Eve_call_module_m E TOOLS)) [tool_dict, u] w =
          (Inr (PDict [(''success'', PBool False),
                       (''error'', PStr (''unhashable type: '' @ quoted ''dict'')),
                       (''function'', PStr ''_call_module''),
                       (''trace'', PStr (format_exc E ''_call_module''
                          (Exn TypeError (''unhashable type: '' @ quoted ''dict''))))]),
           print [PStr (''Error in _call_module: unhashable type: '' @ quoted ''dict'')] w)) \<and>
     (library_texts_differ E \<and> (\<forall>xs. tool_name \<noteq> PList xs) \<and> (\<forall>d. tool_name \<noteq> PDict d)
        \<longrightarrow>
        (fst (Eve_call_module E (Eve_TOOLS E) tool_dict u w) = Inr unknown_function)
          = (\<forall>s. tool_name = PStr s \<longrightarrow> map_of (Eve_TOOLS E) s = None))"
proof (intro impI, elim conjE)
  assume a: "py_get tool_dict ''tool'' PNone = Inr tool_name"
    "py_get tool_dict ''input'' u = Inr input_value"
  have 1: "(\<forall>s. tool_name = PStr s \<longrightarrow> map_of TOOLS s = None) \<and>
      (\<forall>xs. tool_name \<noteq> PList xs) \<and> (\<forall>d. tool_name \<noteq> PDict d) \<longrightarrow>
        Eve_call_module E TOOLS tool_dict u w = (Inr unknown_function, w)" for TOOLS
    using Eve_call_module_hashable_not_key[OF a] by blast
  have 2: "\<forall>s f. tool_name = PStr s \<and> map_of TOOLS s = Some f \<longrightarrow>
        Eve_call_module E TOOLS tool_dict u w = call f [input_value] w" for TOOLS
    using Eve_call_module_key a by blast
  have 3: "\<forall>xs. tool_name = PList xs \<longrightarrow>
        Eve_call_module E TOOLS tool_dict u w
          = (Inl (Exn TypeError (''unhashable type: '' @ quoted ''list'')), w) \<and>
        call (safe_run E (Eve_call_module_m E TOOLS)) [tool_dict, u] w =
          (Inr (PDict [(''success'', PBool False),
                       (''error'', PStr (''unhashable type: '' @ quoted ''list'')),
                       (''function'', PStr ''_call_module''),
                       (''trace'', PStr (format_exc E ''_call_module''
                          (Exn TypeError (''unhashable type: '' @ quoted ''list''))))]),
           print [PStr (''Error in _call_module: unhashable type: '' @ quoted ''list'')] w)"
    using Eve_call_module_unhashable[OF a, where TOOLS = TOOLS and E = E and w = w
            and e = "Exn TypeError (''unhashable type: '' @ quoted ''list'')"]
    by (auto simp: py_in_def is_Exception_def)
  have 4: "\<forall>d. tool_name = PDict d \<longrightarrow>
        Eve_call_module E TOOLS tool_dict u w
          = (Inl (Exn TypeError (''unhashable type: '' @ quoted ''dict'')), w) \<and>
        call (safe_run E (Eve_call_module_m E TOOLS)) [tool_dict, u] w =
          (Inr (PDict [(''success'', PBool False),
                       (''error'', PStr (''unhashable type: '' @ quoted ''dict'')),
                       (''function'', PStr ''_call_module''),
                       (''trace'', PStr (format_exc E ''_call_module''
                          (Exn TypeError (''unhashable type: '' @ quoted ''dict''))))]),
           print [PStr (''Error in _call_module: unhashable type: '' @ quoted ''dict'')] w)"
    using Eve_call_module_unhashable[OF a, where TOOLS = TOOLS and E = E and w = w
            and e = "Exn TypeError (''unhashable type: '' @ quoted ''dict'')"]
    by (auto simp: py_in_def is_Exception_def)
  have 5: "library_texts_differ E \<and> (\<forall>xs. tool_name \<noteq> PList xs) \<and> (\<forall>d. tool_name \<noteq> PDict d)
        \<longrightarrow>
        (fst (Eve_call_module E (Eve_TOOLS E) tool_dict u w) = Inr unknown_function)
          = (\<forall>s. tool_name = PStr s \<longrightarrow> map_of (Eve_TOOLS E) s = None)"
  proof (intro impI, elim conjE)
    assume l: "library_texts_differ E"
      and h: "\<forall>xs. tool_name \<noteq> PList xs" "\<forall>d. tool_name \<noteq> PDict d"
    show "(fst (Eve_call_module E (Eve_TOOLS E) tool_dict u w) = Inr unknown_function)
          = (\<forall>s. tool_name = PStr s \<longrightarrow> map_of (Eve_TOOLS E) s = None)"
    proof (cases "\<forall>s. tool_name = PStr s \<longrightarrow> map_of (Eve_TOOLS E) s = None")
      case True
      then show ?thesis
        using Eve_call_module_hashable_not_key[OF a True h] by simp
    next
      case False
      then obtain s f where s: "tool_name = PStr s" "map_of (Eve_TOOLS E) s = Some f"
        by auto
      have "Eve_call_module E (Eve_TOOLS E) tool_dict u w = call f [input_value] w"
        using Eve_call_module_key[OF a(1)[unfolded s(1)] a(2) s(2)] .
      then show ?thesis
        using Eve_TOOLS_not_unknown[OF l s(2), of input_value w] False by simp
    qed
  qed
  show "((\<forall>s. tool_name = PStr s \<longrightarrow> map_of TOOLS s = None) \<and>
      (\<forall>xs. tool_name \<noteq> PList xs) \<and> (\<forall>d. tool_name \<noteq> PDict d) \<longrightarrow>
        Eve_call_module E TOOLS tool_dict u w = (Inr unknown_function, w)) \<and>
     (\<forall>s f. tool_name = PStr s \<and> map_of TOOLS s = Some f \<longrightarrow>
        Eve_call_module E TOOLS tool_dict u w = call f [input_value] w) \<and>
     (\<forall>xs. tool_name = PList xs \<longrightarrow>
        Eve_call_module E TOOLS tool_dict u w
          = (Inl (Exn TypeError (''unhashable type: '' @ quoted ''list'')), w) \<and>
        call (safe_run E (Eve_call_module_m E TOOLS)) [tool_dict, u] w =
          (Inr (PDict [(''success'', PBool False),
                       (''error'', PStr (''unhashable type: '' @ quoted ''list'')),
                       (''function'', PStr ''_call_module''),
                       (''trace'', PStr (format_exc E ''_call_module''
                          (Exn TypeError (''unhashable type: '' @ quoted ''list''))))]),
           print [PStr (''Error in _call_module: unhashable type: '' @ quoted ''list'')] w)) \<and>
     (\<forall>d. tool_name = PDict d \<longrightarrow>
        Eve_call_module E TOOLS tool_dict u w
          = (Inl (Exn TypeError (''unhashable type: '' @ quoted ''dict'')), w) \<and>
        call (safe_run E (Eve_call_module_m E TOOLS)) [tool_dict, u] w =
          (Inr (PDict [(''success'', PBool False),
                       (''error'', PStr (''unhashable type: '' @ quoted ''dict'')),
                       (''function'', PStr ''_call_module''),
                       (''trace'', PStr (format_exc E ''_call_module''
                          (Exn TypeError (''unhashable type: '' @ quoted ''dict''))))]),
           print [PStr (''Error in _call_module: unhashable type: '' @ quoted ''dict'')] w)) \<and>
     (library_texts_differ E \<and> (\<forall>xs. tool_name \<noteq> PList xs) \<and> (\<forall>d. tool_name \<noteq> PDict d)
        \<longrightarrow>
        (fst (Eve_call_module E (Eve_TOOLS E) tool_dict u w) = Inr unknown_function)
          = (\<forall>s. tool_name = PStr s \<longrightarrow> map_of (Eve_TOOLS E) s = None))"
    using 1[of TOOLS] 2[of TOOLS] 3 4 5 by (intro conjI)
qed

theorem dispatch_by_registry_key_witness:
  "\<forall>E w.
     Eve_call_module E (Eve_TOOLS E) (PDict [(''tool'', PStr ''bogus'')]) (PStr ''x'') w
       = (Inr unknown_function, w) \<and>
     Eve_call_module E (Eve_TOOLS E)
         (PDict [(''tool'', PStr ''get_weather''), (''input'', PStr ''paris'')]) (PStr []) w
       = call (safe_run E (Weather_main_m E)) [PStr ''paris''] w \<and>
     Eve_call_module E (Eve_TOOLS E) (PDict [(''tool'', PDict [])]) (PStr ''x'') w
       = (Inl (Exn TypeError (''unhashable type: '' @ quoted ''dict'')), w) \<and>
     call (safe_run E (Eve_call_module_m E (Eve_TOOLS E)))
         [PDict [(''tool'', PList [PStr ''get_weather''])], PStr []] w
       = (Inr (PDict [(''success'', PBool False),
                      (''error'', PStr (''unhashable type: '' @ quoted ''list'')),
                      (''function'', PStr ''_call_module''),
                      (''trace'', PStr (format_exc E ''_call_module''
                         (Exn TypeError (''unhashable type: '' @ quoted ''list''))))]),
          print [PStr (''Error in _call_module: unhashable type: '' @ quoted ''list'')] w) \<and>
     fst (Eve_call_module (unreachable E) (Eve_TOOLS (unreachable E))
            (PDict [(''tool'', PStr ''get_news'')]) (PStr ''terrorist'') w)
       \<noteq> Inr unknown_function \<and>
     fst (Eve_call_module (unreachable E) (Eve_TOOLS (unreachable E))
            (PDict [(''tool'', PNone)]) (PStr ''terrorist'') w)
       = Inr unknown_function"
proof (intro allI)
  fix E w
  let ?U = "unreachable E"
  have g: "py_get (PDict d) ''tool'' PNone = Inr (case map_of d ''tool'' of Some x \<Rightarrow> x | None \<Rightarrow> PNone)
           \<and> py_get (PDict d) ''input'' u
               = Inr (case map_of d ''input'' of Some x \<Rightarrow> x | None \<Rightarrow> u)" for d u
    by (simp add: py_get_def)
  note T = dispatch_by_registry_key[rule_format]
  have 1: "Eve_call_module E (Eve_TOOLS E) (PDict [(''tool'', PStr ''bogus'')]) (PStr ''x'') w
       = (Inr unknown_function, w)"
    by (rule T[OF g, THEN conjunct1, rule_format]) (simp add: Eve_TOOLS_def)
  have 2: "Eve_call_module E (Eve_TOOLS E)
         (PDict [(''tool'', PStr ''get_weather''), (''input'', PStr ''paris'')]) (PStr []) w
       = call (safe_run E (Weather_main_m E))
           [case map_of [(''tool'', PStr ''get_weather''), (''input'', PStr ''paris'')] ''input'' of
              Some x \<Rightarrow> x | None \<Rightarrow> PStr []] w"
    by (rule T[OF g, THEN conjunct2, THEN conjunct1, rule_format, where s = "''get_weather''"])
       (simp add: Eve_TOOLS_def)
  have 3: "Eve_call_module E (Eve_TOOLS E) (PDict [(''tool'', PDict [])]) (PStr ''x'') w
       = (Inl (Exn TypeError (''unhashable type: '' @ quoted ''dict'')), w)"
    by (rule T[OF g, THEN conjunct2, THEN conjunct2, THEN conjunct2, THEN conjunct1,
               rule_format, THEN conjunct1]) simp
  have 5: "call (safe_run E (Eve_call_module_m E (Eve_TOOLS E)))
         [PDict [(''tool'', PList [PStr ''get_weather''])], PStr []] w
       = (Inr (PDict [(''success'', PBool False),
                      (''error'', PStr (''unhashable type: '' @ quoted ''list'')),
                      (''function'', PStr ''_call_module''),
                      (''trace'', PStr (format_exc E ''_call_module''
                         (Exn TypeError (''unhashable type: '' @ quoted ''list''))))]),
          print [PStr (''Error in _call_module: unhashable type: '' @ quoted ''list'')] w)"
    by (rule T[OF g, THEN conjunct2, THEN conjunct2, THEN conjunct1, rule_format, THEN conjunct2])
       simp
  have 4: "(fst (Eve_call_module ?U (Eve_TOOLS ?U) (PDict d) (PStr ''terrorist'') w)
              = Inr unknown_function)
         = (\<forall>s. (case map_of d ''tool'' of Some x \<Rightarrow> x | None \<Rightarrow> PNone) = PStr s
                  \<longrightarrow> map_of (Eve_TOOLS ?U) s = None)"
    if "\<forall>xs. (case map_of d ''tool'' of Some x \<Rightarrow> x | None \<Rightarrow> PNone) \<noteq> PList xs"
       "\<forall>d'. (case map_of d ''tool'' of Some x \<Rightarrow> x | None \<Rightarrow> PNone) \<noteq> PDict d'" for d
    using T[OF g, THEN conjunct2, THEN conjunct2, THEN conjunct2, THEN conjunct2, rule_format,
            of ?U d "PStr ''terrorist''" w] that library_texts_differ_unreachable[of E]
    by blast
  show "Eve_call_module E (Eve_TOOLS E) (PDict [(''tool'', PStr ''bogus'')]) (PStr ''x'') w
       = (Inr unknown_function, w) \<and>
     Eve_call_module E (Eve_TOOLS E)
         (PDict [(''tool'', PStr ''get_weather''), (''input'', PStr ''paris'')]) (PStr []) w
       = call (safe_run E (Weather_main_m E)) [PStr ''paris''] w \<and>
     Eve_call_module E (Eve_TOOLS E) (PDict [(''tool'', PDict [])]) (PStr ''x'') w
       = (Inl (Exn TypeError (''unhashable type: '' @ quoted ''dict'')), w) \<and>
     call (safe_run E (Eve_call_module_m E (Eve_TOOLS E)))
         [PDict [(''tool'', PList [PStr ''get_weather''])], PStr []] w
       = (Inr (PDict [(''success'', PBool False),
                      (''error'', PStr (''unhashable type: '' @ quoted ''list'')),
                      (''function'', PStr ''_call_module''),
                      (''trace'', PStr (format_exc E ''_call_module''
                         (Exn TypeError (''unhashable type: '' @ quoted ''list''))))]),
          print [PStr (''Error in _call_module: unhashable type: '' @ quoted ''list'')] w) \<and>
     fst (Eve_call_module ?U (Eve_TOOLS ?U)
            (PDict [(''tool'', PStr ''get_news'')]) (PStr ''terrorist'') w)
       \<noteq> Inr unknown_function \<and>
     fst (Eve_call_module ?U (Eve_TOOLS ?U)
            (PDict [(''tool'', PNone)]) (PStr ''terrorist'') w)
       = Inr unknown_function"
    using 1 2 3 5 4[of "[(''tool'', PStr ''get_news'')]"] 4[of "[(''tool'', PNone)]"]
    by (simp add: Eve_TOOLS_def)
qed

text \<open>
  C2 as stated fails for a tool name that cannot be hashed. The name \<^verbatim>\<open>["get_weather"]\<close>
  (the text \<^verbatim>\<open>{"tool":"x","tool":["get_weather"]}\<close> parses to it) is not a key of the
  registry, and dispatch raises \<^verbatim>\<open>TypeError\<close>; the wrapped \<^verbatim>\<open>self._call_module\<close>
  returns the error object of \<^verbatim>\<open>safe_run\<close>, which is not the unknown-function envelope.
\<close>

theorem dispatch_not_key_not_unknown:
  "\<forall>E w.
     (\<forall>s. PList [PStr ''get_weather''] \<noteq> PStr s) \<and>
     Eve_call_module E (Eve_TOOLS E) (PDict [(''tool'', PList [PStr ''get_weather''])]) (PStr []) w
       = (Inl (Exn TypeError (''unhashable type: '' @ quoted ''list'')), w) \<and>
     fst (call (safe_run E (Eve_call_module_m E (Eve_TOOLS E)))
            [PDict [(''tool'', PList [PStr ''get_weather''])], PStr []] w)
       = Inr (error_data E ''_call_module'' (Exn TypeError (''unhashable type: '' @ quoted ''list''))) \<and>
     error_data E ''_call_module'' (Exn TypeError (''unhashable type: '' @ quoted ''list''))
       \<noteq> unknown_function"
  by (simp add: Eve_call_module_cases py_get_def py_in_def registry_getitem_def call_safe_run
        Eve_call_module_m_def method2d_def is_Exception_def error_data_def unknown_function_def)

section \<open>The fallback input\<close>

lemma http_log_map_call:
  assumes "\<And>x w. http_log (snd (call f [x] w)) = http_log w"
  shows "http_log (snd (map_call f xs w)) = http_log w"
proof (induction xs arbitrary: w)
  case Nil
  then show ?case by simp
next
  case (Cons x xs)
  obtain r w1 where 1: "call f [x] w = (r, w1)" by (cases "call f [x] w")
  then have l1: "http_log w1 = http_log w" using assms[of x w] by simp
  obtain r2 w2 where 2: "map_call f xs w1 = (r2, w2)" by (cases "map_call f xs w1")
  then have l2: "http_log w2 = http_log w1" using Cons.IH[of w1] by simp
  show ?case using 1 2 l1 l2 by (auto split: sum.splits)
qed

lemma http_log_News_filter_data:
  "http_log (snd (News_filter_data E data w)) = http_log w"
proof -
  have f: "http_log (snd (call (safe_run E (News_news_format_m E)) [x] w)) = http_log w" for x w
    by (simp add: http_log_safe_run News_news_format_m_def call_method1_one)
  show ?thesis
    using http_log_map_call[of "safe_run E (News_news_format_m E)", OF f]
    by (auto simp: News_filter_data_def then_do_def split: sum.splits prod.splits)
       (metis snd_conv)+
qed

lemma http_log_News_fetch_news:
  "http_log (snd (News_fetch_news E topic w)) = http_log w @ [News_url E topic w]"
proof -
  have f: "http_log (snd (call (safe_run E (News_filter_data_m E)) [j] w1)) = http_log w1" for j w1
    by (simp add: http_log_safe_run News_filter_data_m_def call_method1_one
          http_log_News_filter_data)
  show ?thesis
    by (auto simp: News_fetch_news_def then_do_def http_get_def f split: sum.splits prod.splits)
qed

lemma http_log_News_main:
  "http_log (snd (News_main E topic w)) = http_log w @ [News_url E topic w]"
proof -
  have "http_log (snd (call (safe_run E (News_fetch_news_m E)) [topic] w))
          = http_log w @ [News_url E topic w]"
    by (simp add: http_log_safe_run News_fetch_news_m_def call_method1_one
          http_log_News_fetch_news)
  then show ?thesis
    by (auto simp: News_main_def then_do_def split: sum.splits prod.splits)
qed

text \<open>
  C9. For a request whose dictionary has no \<^verbatim>\<open>input\<close> key and whose tool name is a
  registry key, dispatch invokes the registered tool with the fallback input. In particular
  \<^verbatim>\<open>_call_module({"tool": "get_news"}, "terrorist")\<close> calls the news entry point with
  \<^verbatim>\<open>"terrorist"\<close>: the one request it sends is the news URL for that topic.
\<close>

theorem dispatch_fallback_input:
  "(map_of d ''tool'' = Some (PStr s) \<and> map_of TOOLS s = Some f \<and> map_of d ''input'' = None
      \<longrightarrow> Eve_call_module E TOOLS (PDict d) u w = call f [u] w) \<and>
   Eve_call_module E (Eve_TOOLS E) (PDict [(''tool'', PStr ''get_news'')]) (PStr ''terrorist'') w
     = call (safe_run E (News_main_m E)) [PStr ''terrorist''] w \<and>
   call (safe_run E (News_main_m E)) [PStr ''terrorist''] w
     = News_main E (PStr ''terrorist'') w \<and>
   http_log (snd (Eve_call_module E (Eve_TOOLS E) (PDict [(''tool'', PStr ''get_news'')])
                    (PStr ''terrorist'') w))
     = http_log w @ [News_url E (PStr ''terrorist'') w]"
  by (simp add: Eve_call_module_registered Eve_TOOLS_def wrapped_News_main http_log_News_main)

theorem dispatch_fallback_input_witness:
  "\<forall>E w. Eve_call_module E [(''echo'', returning)] (PDict [(''tool'', PStr ''echo'')])
              (PStr ''terrorist'') w
            = (Inr (PList [PStr ''terrorist'']), w)"
proof (intro allI)
  fix E w
  show "Eve_call_module E [(''echo'', returning)] (PDict [(''tool'', PStr ''echo'')])
              (PStr ''terrorist'') w
            = (Inr (PList [PStr ''terrorist'']), w)"
    using dispatch_fallback_input
            [where d = "[(''tool'', PStr ''echo'')]" and s = "''echo''"
               and TOOLS = "[(''echo'', returning)]" and f = returning and E = E
               and u = "PStr ''terrorist''" and w = w]
    by (simp add: returning_def)
qed

section \<open>Wrapping at construction\<close>

lemma getattr_wrap_step:
  "getattr (wrap_step E self n) m =
     (if m = n \<and> \<not> startswith n ''__'' then
        (case getattr self n of Some (Method f) \<Rightarrow> Some (Method (safe_run E f)) | a \<Rightarrow> a)
      else getattr self m)"
  by (auto simp: wrap_step_def getattr_def setattr_def update_conv' split: option.splits attr.splits)

lemma getattr_foldl_wrap_step:
  "distinct ns \<Longrightarrow> getattr (foldl (wrap_step E) self ns) m =
     (if m \<in> set ns \<and> \<not> startswith m ''__'' then
        (case getattr self m of Some (Method f) \<Rightarrow> Some (Method (safe_run E f)) | a \<Rightarrow> a)
      else getattr self m)"
proof (induction ns arbitrary: self)
  case Nil
  then show ?case by simp
next
  case (Cons n ns)
  then show ?case
    by (auto simp: getattr_wrap_step split: option.splits attr.splits)
qed

lemma getattr_None_iff: "getattr self m = None \<longleftrightarrow> m \<notin> set (dir self)"
  by (simp add: getattr_def dir_def map_of_eq_None_iff)

lemma getattr_wrap_modules:
  "getattr (wrap_modules E self) m =
     (if startswith m ''__'' then getattr self m
      else case getattr self m of Some (Method f) \<Rightarrow> Some (Method (safe_run E f)) | a \<Rightarrow> a)"
proof -
  have d: "distinct (dir self)" by (simp add: dir_def)
  show ?thesis
  proof (cases "m \<in> set (dir self)")
    case True
    then show ?thesis
      unfolding wrap_modules_def by (simp add: getattr_foldl_wrap_step[OF d])
  next
    case False
    then have "getattr self m = None" by (simp add: getattr_None_iff)
    with False show ?thesis
      unfolding wrap_modules_def by (simp add: getattr_foldl_wrap_step[OF d])
  qed
qed

lemma getattr_setattr:
  "getattr (setattr self n v) m = (if m = n then Some v else getattr self m)"
  by (simp add: getattr_def setattr_def update_conv')

lemma getattr_Cons:
  "getattr ((k, v) # rest) m = (if m = k then Some v else getattr rest m)"
  by (simp add: getattr_def)

lemma getattr_init:
  "getattr (ErrorHandler_init E self) m =
     (if startswith m ''__'' then getattr self m
      else case getattr self m of Some (Method f) \<Rightarrow> Some (Method (safe_run E f)) | a \<Rightarrow> a)"
  by (simp add: ErrorHandler_init_def getattr_wrap_modules)

text \<open>
  C10 (as amended). \<^verbatim>\<open>ErrorHandler.__init__\<close> replaces every attribute that is callable
  and whose name does not start with two underscores by its \<^verbatim>\<open>safe_run\<close> wrapper, the
  helpers with one underscore included, and leaves every other attribute as it is. A call
  of a replaced attribute raises nothing below \<^verbatim>\<open>Exception\<close>. After the construction
  of the four instances of the program every method of their classes is the wrapped one:
  \<^verbatim>\<open>_fetch_weather\<close>, \<^verbatim>\<open>_format_data\<close> and \<^verbatim>\<open>main\<close> of the weather module, the
  four methods of the news and of the search module, and \<^verbatim>\<open>_call_module\<close>,
  \<^verbatim>\<open>_generate_response\<close>, \<^verbatim>\<open>_extract_json\<close> and \<^verbatim>\<open>run\<close> of the assistant; the
  data attributes set afterwards do not change that.
\<close>

theorem init_wraps_every_method:
  "(\<not> startswith n ''__'' \<and> getattr self n = Some (Method f) \<longrightarrow>
      getattr (ErrorHandler_init E self) n = Some (Method (safe_run E f))) \<and>
   (startswith n ''__'' \<or> (\<forall>f. getattr self n \<noteq> Some (Method f)) \<longrightarrow>
      getattr (ErrorHandler_init E self) n = getattr self n) \<and>
   (\<not> startswith n ''__'' \<and> getattr (ErrorHandler_init E self) n = Some (Method g) \<longrightarrow>
      (\<forall>args w e. fst (call g args w) = Inl e \<longrightarrow> \<not> is_Exception e)) \<and>
   getattr (Weather_init E inherited) ''_fetch_weather''
     = Some (Method (safe_run E (Weather_fetch_weather_m E))) \<and>
   getattr (Weather_init E inherited) ''_format_data''
     = Some (Method (safe_run E (Weather_format_data_m E))) \<and>
   getattr (Weather_init E inherited) ''main'' = Some (Method (safe_run E (Weather_main_m E))) \<and>
   getattr (News_init E inherited) ''_news_format''
     = Some (Method (safe_run E (News_news_format_m E))) \<and>
   getattr (News_init E inherited) ''_filter_data''
     = Some (Method (safe_run E (News_filter_data_m E))) \<and>
   getattr (News_init E inherited) ''_fetch_news''
     = Some (Method (safe_run E (News_fetch_news_m E))) \<and>
   getattr (News_init E inherited) ''main'' = Some (Method (safe_run E (News_main_m E))) \<and>
   getattr (GoogleSearch_init E inherited) ''_scrape_webpage''
     = Some (Method (safe_run E (GoogleSearch_scrape_webpage_m E))) \<and>
   getattr (GoogleSearch_init E inherited) ''_get_webpage''
     = Some (Method (safe_run E (GoogleSearch_get_webpage_m E))) \<and>
   getattr (GoogleSearch_init E inherited) ''_do_google_search''
     = Some (Method (safe_run E (GoogleSearch_do_google_search_m E))) \<and>
   getattr (GoogleSearch_init E inherited) ''main''
     = Some (Method (safe_run E (GoogleSearch_main_m E))) \<and>
   getattr (Eve_init E inputs inherited) ''_call_module''
     = Some (Method (safe_run E (Eve_call_module_m E (Eve_TOOLS E)))) \<and>
   getattr (Eve_init E inputs inherited) ''_generate_response''
     = Some (Method (safe_run E (Eve_generate_response_m E))) \<and>
   getattr (Eve_init E inputs inherited) ''_extract_json''
     = Some (Method (safe_run E (Eve_extract_json_m E (Eve_TOOLS E)))) \<and>
   getattr (Eve_init E inputs inherited) ''run''
     = Some (Method (safe_run E (Eve_run_m E (Eve_TOOLS E) inputs))) \<and>
   getattr (Eve_init E inputs inherited) ''TOOLS'' = Some (Table (Eve_TOOLS E))"
proof -
  have 1: "\<not> startswith n ''__'' \<and> getattr self n = Some (Method f) \<longrightarrow>
      getattr (ErrorHandler_init E self) n = Some (Method (safe_run E f))"
    by (simp add: getattr_init)
  have 2: "startswith n ''__'' \<or> (\<forall>f. getattr self n \<noteq> Some (Method f)) \<longrightarrow>
      getattr (ErrorHandler_init E self) n = getattr self n"
    by (auto simp: getattr_init split: option.splits attr.splits)
  have 3: "\<not> startswith n ''__'' \<and> getattr (ErrorHandler_init E self) n = Some (Method g) \<longrightarrow>
      (\<forall>args w e. fst (call g args w) = Inl e \<longrightarrow> \<not> is_Exception e)"
    by (auto simp: getattr_init split: option.splits attr.splits
             dest: safe_run_raises_only_BaseException)
  have 4: "getattr (Weather_init E inherited) ''_fetch_weather''
     = Some (Method (safe_run E (Weather_fetch_weather_m E))) \<and>
   getattr (Weather_init E inherited) ''_format_data''
     = Some (Method (safe_run E (Weather_format_data_m E))) \<and>
   getattr (Weather_init E inherited) ''main'' = Some (Method (safe_run E (Weather_main_m E)))"
    by (simp add: Weather_init_def Weather_attrs_def getattr_setattr getattr_init startswith_def
          getattr_Cons)
  have 5: "getattr (News_init E inherited) ''_news_format''
     = Some (Method (safe_run E (News_news_format_m E))) \<and>
   getattr (News_init E inherited) ''_filter_data''
     = Some (Method (safe_run E (News_filter_data_m E))) \<and>
   getattr (News_init E inherited) ''_fetch_news''
     = Some (Method (safe_run E (News_fetch_news_m E))) \<and>
   getattr (News_init E inherited) ''main'' = Some (Method (safe_run E (News_main_m E)))"
    by (simp add: News_init_def News_attrs_def getattr_setattr getattr_init startswith_def
          getattr_Cons)
  have 6: "getattr (GoogleSearch_init E inherited) ''_scrape_webpage''
     = Some (Method (safe_run E (GoogleSearch_scrape_webpage_m E))) \<and>
   getattr (GoogleSearch_init E inherited) ''_get_webpage''
     = Some (Method (safe_run E (GoogleSearch_get_webpage_m E))) \<and>
   getattr (GoogleSearch_init E inherited) ''_do_google_search''
     = Some (Method (safe_run E (GoogleSearch_do_google_search_m E))) \<and>
   getattr (GoogleSearch_init E inherited) ''main''
     = Some (Method (safe_run E (GoogleSearch_main_m E)))"
    by (simp add: GoogleSearch_init_def GoogleSearch_attrs_def getattr_setattr getattr_init
          startswith_def getattr_Cons)
  have 7: "getattr (Eve_init E inputs inherited) ''_call_module''
     = Some (Method (safe_run E (Eve_call_module_m E (Eve_TOOLS E)))) \<and>
   getattr (Eve_init E inputs inherited) ''_generate_response''
     = Some (Method (safe_run E (Eve_generate_response_m E))) \<and>
   getattr (Eve_init E inputs inherited) ''_extract_json''
     = Some (Method (safe_run E (Eve_extract_json_m E (Eve_TOOLS E)))) \<and>
   getattr (Eve_init E inputs inherited) ''run''
     = Some (Method (safe_run E (Eve_run_m E (Eve_TOOLS E) inputs))) \<and>
   getattr (Eve_init E inputs inherited) ''TOOLS'' = Some (Table (Eve_TOOLS E))"
    by (simp add: Eve_init_def Eve_attrs_def getattr_setattr getattr_init startswith_def
          getattr_Cons)
  show ?thesis
    using 1 2 3 4 5 6 7 by (intro conjI) blast+
qed

theorem init_wraps_every_method_witness:
  "\<forall>E. getattr (ErrorHandler_init E
            [(''__init__'', Method returning), (''_helper'', Method returning),
             (''main'', Method (raising (Exn RuntimeError ''down''))), (''_url'', Data (PStr ''http://''))])
          ''_helper'' = Some (Method (safe_run E returning)) \<and>
       getattr (ErrorHandler_init E
            [(''__init__'', Method returning), (''_helper'', Method returning),
             (''main'', Method (raising (Exn RuntimeError ''down''))), (''_url'', Data (PStr ''http://''))])
          ''__init__'' = Some (Method returning) \<and>
       getattr (ErrorHandler_init E
            [(''__init__'', Method returning), (''_helper'', Method returning),
             (''main'', Method (raising (Exn RuntimeError ''down''))), (''_url'', Data (PStr ''http://''))])
          ''_url'' = Some (Data (PStr ''http://''))"
proof (intro allI)
  fix E
  let ?self = "[(''__init__'', Method returning), (''_helper'', Method returning),
             (''main'', Method (raising (Exn RuntimeError ''down''))), (''_url'', Data (PStr ''http://''))]"
  show "getattr (ErrorHandler_init E ?self) ''_helper'' = Some (Method (safe_run E returning)) \<and>
       getattr (ErrorHandler_init E ?self) ''__init__'' = Some (Method returning) \<and>
       getattr (ErrorHandler_init E ?self) ''_url'' = Some (Data (PStr ''http://''))"
    using init_wraps_every_method[where n = "''_helper''" and self = ?self and f = returning and E = E]
          init_wraps_every_method[where n = "''__init__''" and self = ?self and E = E]
          init_wraps_every_method[where n = "''_url''" and self = ?self and E = E]
    by (simp add: getattr_def startswith_def)
qed

lemma Weather_main_interrupted:
  "fst (Weather_main (interrupted E) x w) = Inl (Exn KeyboardInterrupt [])"
  by (simp add: Weather_main_def then_do_def call_safe_run
        Weather_fetch_weather_m_def method_calls Weather_fetch_weather_def http_get_def
        interrupted_def is_Exception_def)

text \<open>
  C10 as stated fails: a wrapped attribute can raise. When Ctrl-C interrupts the request,
  the wrapped \<^verbatim>\<open>main\<close> of the weather instance raises \<^verbatim>\<open>KeyboardInterrupt\<close>.
\<close>

theorem wrapped_main_KeyboardInterrupt:
  "\<forall>E inherited w.
     getattr (Weather_init (interrupted E) inherited) ''main''
       = Some (Method (safe_run (interrupted E) (Weather_main_m (interrupted E)))) \<and>
     fst (call (safe_run (interrupted E) (Weather_main_m (interrupted E))) [PStr ''delhi''] w)
       = Inl (Exn KeyboardInterrupt [])"
proof (intro allI conjI)
  fix E inherited w
  show "getattr (Weather_init (interrupted E) inherited) ''main''
       = Some (Method (safe_run (interrupted E) (Weather_main_m (interrupted E))))"
    by (simp add: Weather_init_def Weather_attrs_def getattr_setattr getattr_init startswith_def
          getattr_Cons)
  show "fst (call (safe_run (interrupted E) (Weather_main_m (interrupted E))) [PStr ''delhi''] w)
       = Inl (Exn KeyboardInterrupt [])"
    by (simp add: wrapped_Weather_main Weather_main_interrupted)
qed

section \<open>Extraction of the tool call\<close>

lemmas search_defs = re_search_def pattern_def is_continuation_def is_space_def

lemma re_search_sure_thing: "re_search sure_thing = Some delhi_request_text"
  by (simp add: search_defs sure_thing_def delhi_request_text_def)

lemma re_search_malformed: "re_search malformed_reply = Some malformed_request_text"
  by (simp add: search_defs malformed_reply_def malformed_request_text_def)

lemma re_search_hello: "re_search ''Hello! How can I help you today?'' = None"
  by (simp add: search_defs)


lemma wrapped_call_module_registered:
  assumes "map_of d ''tool'' = Some (PStr s)" "map_of TOOLS s = Some (safe_run E g)"
  shows "call (safe_run E (Eve_call_module_m E TOOLS)) [PDict d, u] w
           = call (safe_run E g) [case map_of d ''input'' of Some x \<Rightarrow> x | None \<Rightarrow> u] w"
proof -
  have "call (Eve_call_module_m E TOOLS) [PDict d, u] w
          = call (safe_run E g) [case map_of d ''input'' of Some x \<Rightarrow> x | None \<Rightarrow> u] w"
    by (simp add: Eve_call_module_m_def method2d_def Eve_call_module_registered[OF assms])
  then show ?thesis
    using safe_run_id[of "Eve_call_module_m E TOOLS" "[PDict d, u]" w E]
          safe_run_raises_only_BaseException[of E g]
    by metis
qed

text \<open>
  C5. In the generated text
  \<^verbatim>\<open>Sure thing! {"tool":"get_weather","input":"delhi"} -- let me check.\<close> (with a dash
  U+2014) the pattern finds \<^verbatim>\<open>{"tool":"get_weather","input":"delhi"}\<close>; when
  \<^verbatim>\<open>json.loads\<close> reads that text as the request with tool \<^verbatim>\<open>get_weather\<close> and input
  \<^verbatim>\<open>delhi\<close>, \<^verbatim>\<open>_extract_json\<close> prints the request, calls the weather entry point with
  \<^verbatim>\<open>"delhi"\<close> and hands the success flag and the data of its response to
  \<^verbatim>\<open>_generate_response\<close>. For every generated text in which the pattern finds nothing,
  \<^verbatim>\<open>_extract_json\<close> prints the whole text after \<^verbatim>\<open>Medusa :-\<close> and does nothing else:
  no request is sent, no chat call is made.
\<close>

theorem extract_json_example_and_no_match:
  "re_search sure_thing = Some delhi_request_text \<and>
   (json_loads E delhi_request_text = Inr delhi_request \<longrightarrow>
      Eve_extract_json E (Eve_TOOLS E) (PStr sure_thing) u w =
        then_do (call (safe_run E (Weather_main_m E)) [PStr ''delhi'']
                   (print [PStr ''Tool :-'', delhi_request] w)) (\<lambda>response w1.
        then_do (getitem response ''success'', print [PStr ''Response : '', response] w1)
          (\<lambda>succes w2.
        then_do (getitem response ''data'', w2) (\<lambda>data w3.
        then_do (call (safe_run E (Eve_generate_response_m E)) [succes, u, data] w3)
          (\<lambda>_ w4. (Inr PNone, w4)))))) \<and>
   (re_search reply = None \<longrightarrow>
      Eve_extract_json E TOOLS (PStr reply) u w
        = (Inr PNone, print [PStr ''Medusa :-'', PStr reply] w))"
proof (intro conjI impI)
  show "re_search sure_thing = Some delhi_request_text"
    by (rule re_search_sure_thing)
next
  assume j: "json_loads E delhi_request_text = Inr delhi_request"
  have d: "call (safe_run E (Eve_call_module_m E (Eve_TOOLS E))) [delhi_request, u] w'
             = call (safe_run E (Weather_main_m E)) [PStr ''delhi''] w'" for w'
    unfolding delhi_request_def
    by (subst wrapped_call_module_registered[where s = "''get_weather''" and g = "Weather_main_m E"])
       (simp_all add: Eve_TOOLS_def)
  show "Eve_extract_json E (Eve_TOOLS E) (PStr sure_thing) u w =
        then_do (call (safe_run E (Weather_main_m E)) [PStr ''delhi'']
                   (print [PStr ''Tool :-'', delhi_request] w)) (\<lambda>response w1.
        then_do (getitem response ''success'', print [PStr ''Response : '', response] w1)
          (\<lambda>succes w2.
        then_do (getitem response ''data'', w2) (\<lambda>data w3.
        then_do (call (safe_run E (Eve_generate_response_m E)) [succes, u, data] w3)
          (\<lambda>_ w4. (Inr PNone, w4)))))"
    by (simp add: Eve_extract_json_def re_search_sure_thing j d then_do_def)
next
  assume "re_search reply = None"
  then show "Eve_extract_json E TOOLS (PStr reply) u w
        = (Inr PNone, print [PStr ''Medusa :-'', PStr reply] w)"
    by (simp add: Eve_extract_json_def)
qed

theorem extract_json_example_and_no_match_witness:
  "\<forall>E w.
     Eve_extract_json (with_json delhi_request_text (Inr delhi_request) E)
         (Eve_TOOLS (with_json delhi_request_text (Inr delhi_request) E))
         (PStr sure_thing) (PStr ''weather in delhi?'') w =
       then_do (call (safe_run (with_json delhi_request_text (Inr delhi_request) E)
                        (Weather_main_m (with_json delhi_request_text (Inr delhi_request) E)))
                  [PStr ''delhi''] (print [PStr ''Tool :-'', delhi_request] w)) (\<lambda>response w1.
       then_do (getitem response ''success'', print [PStr ''Response : '', response] w1)
         (\<lambda>succes w2.
       then_do (getitem response ''data'', w2) (\<lambda>data w3.
       then_do (call (safe_run (with_json delhi_request_text (Inr delhi_request) E)
                        (Eve_generate_response_m (with_json delhi_request_text (Inr delhi_request) E)))
                  [succes, PStr ''weather in delhi?'', data] w3)
         (\<lambda>_ w4. (Inr PNone, w4))))) \<and>
     Eve_extract_json E (Eve_TOOLS E) (PStr ''Hello! How can I help you today?'')
         (PStr ''hi'') w
       = (Inr PNone, print [PStr ''Medusa :-'', PStr ''Hello! How can I help you today?''] w)"
proof (intro allI)
  fix E w
  let ?J = "with_json delhi_request_text (Inr delhi_request) E"
  have j: "json_loads ?J delhi_request_text = Inr delhi_request"
    by (simp add: with_json_def)
  note T1 = extract_json_example_and_no_match
              [where E = "?J" and u = "PStr ''weather in delhi?''" and w = w,
               THEN conjunct2, THEN conjunct1, rule_format, OF j]
  note T2 = extract_json_example_and_no_match
              [where E = E and TOOLS = "Eve_TOOLS E" and u = "PStr ''hi''" and w = w
                 and reply = "''Hello! How can I help you today?''",
               THEN conjunct2, THEN conjunct2, rule_format, OF re_search_hello]
  show "Eve_extract_json ?J (Eve_TOOLS ?J) (PStr sure_thing) (PStr ''weather in delhi?'') w =
       then_do (call (safe_run ?J (Weather_main_m ?J))
                  [PStr ''delhi''] (print [PStr ''Tool :-'', delhi_request] w)) (\<lambda>response w1.
       then_do (getitem response ''success'', print [PStr ''Response : '', response] w1)
         (\<lambda>succes w2.
       then_do (getitem response ''data'', w2) (\<lambda>data w3.
       then_do (call (safe_run ?J (Eve_generate_response_m ?J))
                  [succes, PStr ''weather in delhi?'', data] w3)
         (\<lambda>_ w4. (Inr PNone, w4))))) \<and>
     Eve_extract_json E (Eve_TOOLS E) (PStr ''Hello! How can I help you today?'')
         (PStr ''hi'') w
       = (Inr PNone, print [PStr ''Medusa :-'', PStr ''Hello! How can I help you today?''] w)"
    using T1 T2 by (intro conjI)
qed

text \<open>
  C7 (as amended). When the pattern matches and \<^verbatim>\<open>json.loads\<close> raises on the matched
  text (a \<^verbatim>\<open>JSONDecodeError\<close>, which is below \<^verbatim>\<open>Exception\<close>), the body of
  \<^verbatim>\<open>_extract_json\<close> raises that exception at once: nothing is printed, no tool is called
  and the text is not shown as a reply. The exception does not leave the method as the
  instance has it: \<^verbatim>\<open>self._extract_json\<close> is wrapped, and the call returns the error
  object \<^verbatim>\<open>{success: False, error: <message>, function: "_extract_json", trace: ...}\<close>
  after printing \<^verbatim>\<open>Error in _extract_json: <message>\<close>.
\<close>

theorem extract_json_malformed:
  "re_search reply = Some matched \<and> json_loads E matched = Inl e \<and> is_Exception e \<longrightarrow>
     Eve_extract_json E TOOLS (PStr reply) u w = (Inl e, w) \<and>
     call (safe_run E (Eve_extract_json_m E TOOLS)) [PStr reply, u] w =
       (Inr (PDict [(''success'', PBool False), (''error'', PStr (message e)),
                    (''function'', PStr ''_extract_json''),
                    (''trace'', PStr (format_exc E ''_extract_json'' e))]),
        print [PStr (''Error in _extract_json: '' @ message e)] w)"
  by (simp add: Eve_extract_json_def then_do_def call_safe_run Eve_extract_json_m_def method2d_def
        error_data_def)


theorem extract_json_malformed_witness:
  "\<forall>E w.
     Eve_extract_json (with_json malformed_request_text (Inl decode_error) E)
         (Eve_TOOLS (with_json malformed_request_text (Inl decode_error) E))
         (PStr malformed_reply) (PStr ''weather?'') w
       = (Inl decode_error, w) \<and>
     call (safe_run (with_json malformed_request_text (Inl decode_error) E)
             (Eve_extract_json_m (with_json malformed_request_text (Inl decode_error) E)
                (Eve_TOOLS (with_json malformed_request_text (Inl decode_error) E))))
          [PStr malformed_reply, PStr ''weather?''] w
       = (Inr (PDict [(''success'', PBool False), (''error'', PStr (message decode_error)),
                      (''function'', PStr ''_extract_json''),
                      (''trace'', PStr (format_exc E ''_extract_json'' decode_error))]),
          print [PStr (''Error in _extract_json: '' @ message decode_error)] w)"
proof (intro allI)
  fix E w
  let ?J = "with_json malformed_request_text (Inl decode_error) E"
  have h: "re_search malformed_reply = Some malformed_request_text \<and>
           json_loads ?J malformed_request_text = Inl decode_error \<and> is_Exception decode_error"
    by (simp add: re_search_malformed with_json_def decode_error_def is_Exception_def)
  have f: "format_exc ?J = format_exc E" by (simp add: with_json_def)
  show "Eve_extract_json ?J (Eve_TOOLS ?J) (PStr malformed_reply) (PStr ''weather?'') w
       = (Inl decode_error, w) \<and>
     call (safe_run ?J (Eve_extract_json_m ?J (Eve_TOOLS ?J)))
          [PStr malformed_reply, PStr ''weather?''] w
       = (Inr (PDict [(''success'', PBool False), (''error'', PStr (message decode_error)),
                      (''function'', PStr ''_extract_json''),
                      (''trace'', PStr (format_exc E ''_extract_json'' decode_error))]),
          print [PStr (''Error in _extract_json: '' @ message decode_error)] w)"
    using extract_json_malformed
            [where E = "?J" and TOOLS = "Eve_TOOLS ?J" and u = "PStr ''weather?''" and w = w,
             rule_format, OF h]
    by (simp only: f)
qed

lemma ollama_chat_with_chat: "ollama_chat (with_chat c E) model messages w = c"
  by (simp add: with_chat_def)

lemma wrapped_extract_json_malformed:
  "call (safe_run (with_chat c (with_json malformed_request_text (Inl decode_error) E))
           (Eve_extract_json_m (with_chat c (with_json malformed_request_text (Inl decode_error) E)) T))
        [PStr malformed_reply, u] w
     = (Inr (error_data E ''_extract_json'' decode_error),
        print [PStr (''Error in _extract_json: '' @ message decode_error)] w)"
  by (simp add: Eve_extract_json_def then_do_def call_safe_run Eve_extract_json_m_def method2d_def
        error_data_def re_search_malformed with_json_def with_chat_def decode_error_def
        is_Exception_def)

text \<open>
  C7 as stated fails: for the generated text \<^verbatim>\<open>Sure {"tool": "get_weather", "input": }\<close>
  the parse failure is turned into an error object by the wrapper around
  \<^verbatim>\<open>_extract_json\<close>, and the loop of \<^verbatim>\<open>run\<close> goes on to the next input, where
  \<^verbatim>\<open>break\<close> ends it normally.
\<close>

theorem malformed_json_becomes_error_object:
  "\<forall>E w.
     re_search malformed_reply = Some malformed_request_text \<and>
     call (safe_run (with_json malformed_request_text (Inl decode_error) E)
             (Eve_extract_json_m (with_json malformed_request_text (Inl decode_error) E)
                (Eve_TOOLS (with_json malformed_request_text (Inl decode_error) E))))
          [PStr malformed_reply, PStr ''weather?''] w
       = (Inr (PDict [(''success'', PBool False),
                      (''error'', PStr ''Expecting value: line 1 column 34 (char 33)''),
                      (''function'', PStr ''_extract_json''),
                      (''trace'', PStr (format_exc E ''_extract_json'' decode_error))]),
          print [PStr ''Error in _extract_json: Expecting value: line 1 column 34 (char 33)''] w) \<and>
     fst (run_loop (with_chat (Inr ([malformed_reply], None))
                      (with_json malformed_request_text (Inl decode_error) E))
            (Eve_TOOLS (with_chat (Inr ([malformed_reply], None))
                          (with_json malformed_request_text (Inl decode_error) E)))
            [Inr ''weather?'', Inr ''break''] w)
       = Inr PNone"
proof (intro allI conjI)
  fix E w
  show "re_search malformed_reply = Some malformed_request_text"
    by (rule re_search_malformed)
  show "call (safe_run (with_json malformed_request_text (Inl decode_error) E)
             (Eve_extract_json_m (with_json malformed_request_text (Inl decode_error) E)
                (Eve_TOOLS (with_json malformed_request_text (Inl decode_error) E))))
          [PStr malformed_reply, PStr ''weather?''] w
       = (Inr (PDict [(''success'', PBool False),
                      (''error'', PStr ''Expecting value: line 1 column 34 (char 33)''),
                      (''function'', PStr ''_extract_json''),
                      (''trace'', PStr (format_exc E ''_extract_json'' decode_error))]),
          print [PStr ''Error in _extract_json: Expecting value: line 1 column 34 (char 33)''] w)"
    by (simp add: Eve_extract_json_def then_do_def call_safe_run Eve_extract_json_m_def method2d_def
        error_data_def re_search_malformed with_json_def decode_error_def is_Exception_def)
  show "fst (run_loop (with_chat (Inr ([malformed_reply], None))
                      (with_json malformed_request_text (Inl decode_error) E))
            (Eve_TOOLS (with_chat (Inr ([malformed_reply], None))
                          (with_json malformed_request_text (Inl decode_error) E)))
            [Inr ''weather?'', Inr ''break''] w)
       = Inr PNone"
    by (simp add: wrapped_extract_json_malformed chat_def ollama_chat_with_chat)
qed


section \<open>The interactive loop\<close>

lemma run_loop_returns_only_on_break:
  "fst (run_loop E T inputs w) = Inr v \<Longrightarrow> Inr ''break'' \<in> set inputs"
proof (induction inputs arbitrary: w)
  case Nil
  then show ?case by simp
next
  case (Cons line rest)
  show ?case
  proof (cases line)
    case (Inl e)
    with Cons.prems show ?thesis by simp
  next
    case (Inr user_input)
    show ?thesis
    proof (cases "user_input = ''break''")
      case True
      with Inr show ?thesis by simp
    next
      case False
      with Cons.prems Inr have "\<exists>w2. fst (run_loop E T rest w2) = Inr v"
        by (auto split: prod.splits sum.splits option.splits)
      then show ?thesis using Cons.IH by auto
    qed
  qed
qed

text \<open>
  How the loop of \<^verbatim>\<open>run\<close> ends. It returns when the user enters \<^verbatim>\<open>break\<close>, and it
  returns normally in no other way. In an iteration whose chat call has streamed its
  tokens, whatever happens inside \<^verbatim>\<open>self._extract_json\<close> (parsing, dispatch, the tools,
  the second chat call) is caught and turned into data if it is below \<^verbatim>\<open>Exception\<close>, and
  the loop reads the next input. The loop ends without \<^verbatim>\<open>break\<close> when a statement of
  \<^verbatim>\<open>run\<close> itself raises: \<^verbatim>\<open>input\<close> (end of input, Ctrl-C), the first chat call, or
  its stream. Such an exception leaves the loop; when it is below \<^verbatim>\<open>Exception\<close> the
  wrapper around \<^verbatim>\<open>run\<close> returns the error object for it.
\<close>

lemma run_loop_ends:
  "run_loop E T (Inr ''break'' # rest) w = (Inr PNone, prompted w) \<and>
   (\<forall>v. fst (run_loop E T inputs w) = Inr v \<longrightarrow> Inr ''break'' \<in> set inputs) \<and>
   (user_input \<noteq> ''break'' \<and>
    ollama_chat E (getenv E ''MODEL'') (routing_messages E user_input) (prompted w)
      = Inr (tokens, None) \<longrightarrow>
      (\<forall>v w2. call (safe_run E (Eve_extract_json_m E T)) [PStr (concat tokens), PStr user_input]
                 (after_chat E user_input tokens w) = (Inr v, w2) \<longrightarrow>
          run_loop E T (Inr user_input # rest) w = run_loop E T rest w2) \<and>
      (\<forall>e w2. call (safe_run E (Eve_extract_json_m E T)) [PStr (concat tokens), PStr user_input]
                 (after_chat E user_input tokens w) = (Inl e, w2) \<longrightarrow>
          \<not> is_Exception e \<and> run_loop E T (Inr user_input # rest) w = (Inl e, w2))) \<and>
   run_loop E T (Inl e # rest) w = (Inl e, prompted w) \<and>
   run_loop E T [] w = (Inl (Exn EOFError ''EOF when reading a line''), prompted w) \<and>
   (user_input \<noteq> ''break'' \<and>
    ollama_chat E (getenv E ''MODEL'') (routing_messages E user_input) (prompted w) = Inl e
      \<longrightarrow> fst (run_loop E T (Inr user_input # rest) w) = Inl e) \<and>
   (user_input \<noteq> ''break'' \<and>
    ollama_chat E (getenv E ''MODEL'') (routing_messages E user_input) (prompted w)
      = Inr (tokens, Some e)
      \<longrightarrow> fst (run_loop E T (Inr user_input # rest) w) = Inl e) \<and>
   (fst (Eve_run E T inputs w) = Inl e \<and> is_Exception e \<longrightarrow>
      fst (call (safe_run E (Eve_run_m E T inputs)) [] w) = Inr (error_data E ''run'' e))"
proof (intro conjI)
  show "run_loop E T (Inr ''break'' # rest) w = (Inr PNone, prompted w)" by simp
  show "\<forall>v. fst (run_loop E T inputs w) = Inr v \<longrightarrow> Inr ''break'' \<in> set inputs"
    using run_loop_returns_only_on_break by blast
  show "user_input \<noteq> ''break'' \<and>
    ollama_chat E (getenv E ''MODEL'') (routing_messages E user_input) (prompted w)
      = Inr (tokens, None) \<longrightarrow>
      (\<forall>v w2. call (safe_run E (Eve_extract_json_m E T)) [PStr (concat tokens), PStr user_input]
                 (after_chat E user_input tokens w) = (Inr v, w2) \<longrightarrow>
          run_loop E T (Inr user_input # rest) w = run_loop E T rest w2) \<and>
      (\<forall>e w2. call (safe_run E (Eve_extract_json_m E T)) [PStr (concat tokens), PStr user_input]
                 (after_chat E user_input tokens w) = (Inl e, w2) \<longrightarrow>
          \<not> is_Exception e \<and> run_loop E T (Inr user_input # rest) w = (Inl e, w2))"
    by (auto simp: chat_def after_chat_def dest: safe_run_Inl)
  show "run_loop E T (Inl e # rest) w = (Inl e, prompted w)" by simp
  show "run_loop E T [] w = (Inl (Exn EOFError ''EOF when reading a line''), prompted w)" by simp
  show "user_input \<noteq> ''break'' \<and>
    ollama_chat E (getenv E ''MODEL'') (routing_messages E user_input) (prompted w) = Inl e
      \<longrightarrow> fst (run_loop E T (Inr user_input # rest) w) = Inl e"
    by (simp add: chat_def)
  show "user_input \<noteq> ''break'' \<and>
    ollama_chat E (getenv E ''MODEL'') (routing_messages E user_input) (prompted w)
      = Inr (tokens, Some e)
      \<longrightarrow> fst (run_loop E T (Inr user_input # rest) w) = Inl e"
    by (simp add: chat_def)
  show "fst (Eve_run E T inputs w) = Inl e \<and> is_Exception e \<longrightarrow>
      fst (call (safe_run E (Eve_run_m E T inputs)) [] w) = Inr (error_data E ''run'' e)"
    by (auto simp: call_safe_run Eve_run_m_def method0_def split: prod.splits sum.splits)
qed

lemma run_loop_ends_example:
  "\<forall>E w.
     run_loop E (Eve_TOOLS E) [Inr ''break''] w = (Inr PNone, prompted w) \<and>
     fst (run_loop (with_chat (Inr ([''Hello! How can I help you today?''], None)) E)
            (Eve_TOOLS (with_chat (Inr ([''Hello! How can I help you today?''], None)) E))
            [Inr ''hi'', Inr ''break''] w) = Inr PNone \<and>
     fst (run_loop (with_chat (Inl refused) E) (Eve_TOOLS (with_chat (Inl refused) E))
            [Inr ''hi'', Inr ''break''] w) = Inl refused"
proof (intro allI)
  fix E w
  let ?C = "with_chat (Inr ([''Hello! How can I help you today?''], None)) E"
  let ?R = "with_chat (Inl refused) E"
  have c: "''hi'' \<noteq> ''break'' \<and>
      ollama_chat ?C (getenv ?C ''MODEL'') (routing_messages ?C ''hi'') (prompted w)
        = Inr ([''Hello! How can I help you today?''], None)"
    by (simp add: ollama_chat_with_chat)
  have x: "call (safe_run ?C (Eve_extract_json_m ?C (Eve_TOOLS ?C)))
             [PStr (concat [''Hello! How can I help you today?'']), PStr ''hi'']
             (after_chat ?C ''hi'' [''Hello! How can I help you today?''] w)
           = (Inr PNone, print [PStr ''Medusa :-'', PStr ''Hello! How can I help you today?'']
                (after_chat ?C ''hi'' [''Hello! How can I help you today?''] w))"
    by (simp add: call_safe_run Eve_extract_json_m_def method2d_def Eve_extract_json_def
          re_search_hello)
  have 1: "run_loop ?C (Eve_TOOLS ?C) [Inr ''hi'', Inr ''break''] w
        = run_loop ?C (Eve_TOOLS ?C) [Inr ''break'']
            (print [PStr ''Medusa :-'', PStr ''Hello! How can I help you today?'']
                (after_chat ?C ''hi'' [''Hello! How can I help you today?''] w))"
    by (rule run_loop_ends[where E = "?C" and T = "Eve_TOOLS ?C" and user_input = "''hi''"
              and tokens = "[''Hello! How can I help you today?'']" and w = w
              and rest = "[Inr ''break'']",
            THEN conjunct2, THEN conjunct2, THEN conjunct1, rule_format, OF c,
            THEN conjunct1, rule_format, OF x])
  have r: "''hi'' \<noteq> ''break'' \<and>
      ollama_chat ?R (getenv ?R ''MODEL'') (routing_messages ?R ''hi'') (prompted w) = Inl refused"
    by (simp add: ollama_chat_with_chat)
  have 2: "fst (run_loop ?R (Eve_TOOLS ?R) [Inr ''hi'', Inr ''break''] w) = Inl refused"
    by (rule run_loop_ends[where E = "?R" and T = "Eve_TOOLS ?R" and user_input = "''hi''"
              and w = w and rest = "[Inr ''break'']" and e = refused,
            THEN conjunct2, THEN conjunct2, THEN conjunct2, THEN conjunct2, THEN conjunct2,
            THEN conjunct1, rule_format, OF r])
  have 3: "run_loop E' T' [Inr ''break''] w' = (Inr PNone, prompted w')" for E' T' w'
    by (rule run_loop_ends[where rest = "[]", THEN conjunct1])
  show "run_loop E (Eve_TOOLS E) [Inr ''break''] w = (Inr PNone, prompted w) \<and>
     fst (run_loop ?C (Eve_TOOLS ?C) [Inr ''hi'', Inr ''break''] w) = Inr PNone \<and>
     fst (run_loop ?R (Eve_TOOLS ?R) [Inr ''hi'', Inr ''break''] w) = Inl refused"
    unfolding 1 2 3 by simp
qed


lemma Weather_refused:
  "fst (Weather_main (with_chat c (without_network E)) x w)
     = Inr (output_json (PBool False) (PStr (quoted ''location'')))"
  by (subst Weather_main_fetch_raises[OF Weather_fetch_network_error[where e = refused]])
     (simp_all add: with_chat_def without_network_def refused_def is_Exception_def)

lemma News_refused_chat:
  "fst (News_main (with_chat c (without_network E)) x w)
     = Inr (output_json (PBool False) (PStr ''Connection refused''))"
  by (subst News_main_fetch_raises[OF News_fetch_network_error[where e = refused]])
     (simp_all add: with_chat_def without_network_def refused_def is_Exception_def)

lemma GoogleSearch_refused:
  "fst (GoogleSearch_main (with_chat c (without_network E)) x w)
     = Inr (output_json (PBool False) (PStr ''Connection refused''))"
  by (subst GoogleSearch_main_search_raises[OF GoogleSearch_search_network_error[where e = refused]])
     (simp_all add: with_chat_def without_network_def refused_def is_Exception_def)

lemma run_loop_chat_refused:
  "fst (run_loop (with_chat (Inl refused) E) T (Inr ''hello'' # rest) w) = Inl refused"
  by (simp add: chat_def ollama_chat_with_chat)

lemma responder_down_simps:
  "requests_get (responder_down E) url w = Inl refused"
  "json_loads (responder_down E) delhi_request_text = Inr delhi_request"
  "getenv (responder_down E) = getenv E"
  "ollama_chat (responder_down E) model (routing_messages (responder_down E) ''hello'') w
     = Inr ([sure_thing], None)"
  by (simp_all add: responder_down_def with_routing_reply_def with_json_def without_network_def
        routing_messages_def)

lemma responder_down_other:
  "messages \<noteq> routing_messages (responder_down E) ''hello'' \<Longrightarrow>
     ollama_chat (responder_down E) model messages w = Inl refused"
  by (simp add: responder_down_def with_routing_reply_def with_json_def without_network_def
        routing_messages_def)

lemma Weather_down:
  "\<exists>w1. Weather_main (responder_down E) x w
          = (Inr (output_json (PBool False) (PStr (quoted ''location''))), w1)"
  by (subst Weather_main_fetch_raises[OF Weather_fetch_network_error[where e = refused]])
     (simp_all add: responder_down_simps refused_def is_Exception_def)

lemma generate_response_down:
  "\<exists>v w1. call (safe_run (responder_down E) (Eve_generate_response_m (responder_down E)))
            [PBool False, PStr ''hello'', PStr (quoted ''location'')] w = (Inr v, w1)"
  by (simp add: call_safe_run Eve_generate_response_m_def method3d_def Eve_generate_response_def
        then_do_def py_len_def chat_def responder_down_other routing_messages_def chat_message_def
        refused_def is_Exception_def)

lemma extract_json_down:
  "\<exists>w2. call (safe_run (responder_down E)
              (Eve_extract_json_m (responder_down E) (Eve_TOOLS (responder_down E))))
            [PStr sure_thing, PStr ''hello''] w = (Inr PNone, w2)"
proof -
  let ?E = "responder_down E"
  have d: "call (safe_run ?E (Eve_call_module_m ?E (Eve_TOOLS ?E))) [delhi_request, PStr ''hello''] w'
             = Weather_main ?E (PStr ''delhi'') w'" for w'
    unfolding delhi_request_def
    by (subst wrapped_call_module_registered[where s = "''get_weather''" and g = "Weather_main_m ?E"])
       (simp_all add: Eve_TOOLS_def wrapped_Weather_main)
  obtain w1 where 1: "Weather_main ?E (PStr ''delhi'') (print [PStr ''Tool :-'', delhi_request] w)
      = (Inr (output_json (PBool False) (PStr (quoted ''location''))), w1)"
    using Weather_down by blast
  obtain v w3 where 2: "call (safe_run ?E (Eve_generate_response_m ?E))
            [PBool False, PStr ''hello'', PStr (quoted ''location'')]
            (print [PStr ''Response : '', output_json (PBool False) (PStr (quoted ''location''))] w1)
          = (Inr v, w3)"
    using generate_response_down by blast
  have "Eve_extract_json ?E (Eve_TOOLS ?E) (PStr sure_thing) (PStr ''hello'') w = (Inr PNone, w3)"
    using 2
    by (simp add: Eve_extract_json_def re_search_sure_thing responder_down_simps d 1 then_do_def
          getitem_def output_json_def)
  then show ?thesis
    by (simp add: call_safe_run Eve_extract_json_m_def method2d_def)
qed

text \<open>
  The same failure in the second chat call is contained. The model server answers the
  routing call for \<^verbatim>\<open>hello\<close> with a request for the weather of Delhi and refuses the
  chat call of \<^verbatim>\<open>self._generate_response\<close>: the wrapper of that method turns the
  exception into data, the loop reads the next input and returns on \<^verbatim>\<open>break\<close>.
\<close>

lemma responder_failure_contained:
  "fst (run_loop (responder_down E) (Eve_TOOLS (responder_down E))
          [Inr ''hello'', Inr ''break''] w) = Inr PNone"
proof -
  let ?E = "responder_down E"
  obtain w2 where "call (safe_run ?E (Eve_extract_json_m ?E (Eve_TOOLS ?E)))
            [PStr sure_thing, PStr ''hello'']
            (after_chat ?E ''hello'' [sure_thing] w) = (Inr PNone, w2)"
    using extract_json_down by blast
  then show ?thesis
    by (simp add: chat_def responder_down_simps after_chat_def)
qed

text \<open>
  C8. The claim is that the loop ends on the input \<^verbatim>\<open>break\<close> and under no other
  condition, every failure of an iteration being caught and turned into data; the
  documentation of \<^verbatim>\<open>run\<close> says the same (\<^verbatim>\<open>Loop continues until user types 'break'\<close>).
  The code does otherwise when the user enters \<^verbatim>\<open>hello\<close> while the model server cannot
  be reached. The first chat call stands in the body of \<^verbatim>\<open>run\<close>, outside every wrapped
  method called from the loop: it raises \<^verbatim>\<open>ConnectionError\<close>, the exception leaves the
  \<^verbatim>\<open>while\<close> loop although \<^verbatim>\<open>break\<close> was never entered (whatever input would have
  followed), the wrapper around \<^verbatim>\<open>run\<close> returns the error object, \<^verbatim>\<open>eve.run()\<close>
  returns and the script, and with it the process, comes to its end. When the same
  exception is raised by the chat call of \<^verbatim>\<open>self._generate_response\<close> instead, the loop
  goes on to the next input and returns on \<^verbatim>\<open>break\<close>.
\<close>

theorem chat_failure_ends_loop:
  "\<forall>E rest w.
     fst (run_loop (with_chat (Inl refused) E) (Eve_TOOLS (with_chat (Inl refused) E))
            (Inr ''hello'' # rest) w) = Inl refused \<and>
     fst (call (safe_run (with_chat (Inl refused) E)
                  (Eve_run_m (with_chat (Inl refused) E) (Eve_TOOLS (with_chat (Inl refused) E))
                     (Inr ''hello'' # rest))) [] w)
       = Inr (PDict [(''success'', PBool False), (''error'', PStr ''Connection refused''),
                     (''function'', PStr ''run''),
                     (''trace'', PStr (format_exc E ''run'' refused))]) \<and>
     fst (eve_script (with_chat (Inl refused) (without_network E)) (Inr ''hello'' # rest) w)
       = Inr PNone \<and>
     fst (run_loop (responder_down E) (Eve_TOOLS (responder_down E))
            [Inr ''hello'', Inr ''break''] w) = Inr PNone"
proof (intro allI conjI)
  fix E rest w
  show "fst (run_loop (with_chat (Inl refused) E) (Eve_TOOLS (with_chat (Inl refused) E))
            (Inr ''hello'' # rest) w) = Inl refused"
    by (rule run_loop_chat_refused)
  show "fst (run_loop (responder_down E) (Eve_TOOLS (responder_down E))
            [Inr ''hello'', Inr ''break''] w) = Inr PNone"
    by (rule responder_failure_contained)
  have r: "fst (call (safe_run (with_chat (Inl refused) E')
                  (Eve_run_m (with_chat (Inl refused) E') T (Inr ''hello'' # rest))) [] w')
       = Inr (error_data (with_chat (Inl refused) E') ''run'' refused)" for E' T w'
    using run_loop_chat_refused[of E' T rest w']
    by (auto simp: call_safe_run Eve_run_m_def method0_def Eve_run_def refused_def is_Exception_def
             split: prod.splits sum.splits)
  show "fst (call (safe_run (with_chat (Inl refused) E)
                  (Eve_run_m (with_chat (Inl refused) E) (Eve_TOOLS (with_chat (Inl refused) E))
                     (Inr ''hello'' # rest))) [] w)
       = Inr (PDict [(''success'', PBool False), (''error'', PStr ''Connection refused''),
                     (''function'', PStr ''run''),
                     (''trace'', PStr (format_exc E ''run'' refused))])"
    by (simp add: r) (simp add: error_data_def refused_def with_chat_def)
  show "fst (eve_script (with_chat (Inl refused) (without_network E)) (Inr ''hello'' # rest) w)
       = Inr PNone"
  proof -
    let ?E = "with_chat (Inl refused) (without_network E)"
    obtain w1 where 1: "GoogleSearch_main ?E (PStr ''elon musk'') w
        = (Inr (output_json (PBool False) (PStr ''Connection refused'')), w1)"
      using GoogleSearch_refused[of "Inl refused" E "PStr ''elon musk''" w]
      by (cases "GoogleSearch_main ?E (PStr ''elon musk'') w") simp
    obtain w2 where 2: "Weather_main ?E (PStr ''chandigarh'')
          (print [output_json (PBool False) (PStr ''Connection refused'')] w1)
        = (Inr (output_json (PBool False) (PStr (quoted ''location''))), w2)"
      using Weather_refused[of "Inl refused" E "PStr ''chandigarh''"
              "print [output_json (PBool False) (PStr ''Connection refused'')] w1"]
      by (cases "Weather_main ?E (PStr ''chandigarh'')
                   (print [output_json (PBool False) (PStr ''Connection refused'')] w1)") simp
    obtain w3 where 3: "News_main ?E (PStr ''terrorist'')
          (print [output_json (PBool False) (PStr (quoted ''location''))] w2)
        = (Inr (output_json (PBool False) (PStr ''Connection refused'')), w3)"
      using News_refused_chat[of "Inl refused" E "PStr ''terrorist''"
              "print [output_json (PBool False) (PStr (quoted ''location''))] w2"]
      by (cases "News_main ?E (PStr ''terrorist'')
                   (print [output_json (PBool False) (PStr (quoted ''location''))] w2)") simp
    have k: "fst (case c of (Inl e, w) \<Rightarrow> (Inl e, w) | (Inr x, w) \<Rightarrow> (Inr PNone, w)) = Inr PNone"
      if "fst c = Inr v" for c :: "pyval outcome" and v
      using that by (cases c) (auto split: sum.splits)
    show ?thesis
      apply (simp add: eve_script_def then_do_def wrapped_Weather_main wrapped_News_main
            wrapped_GoogleSearch_main 1 2 3)
      apply (rule k[OF r])
      done
  qed
qed


end
